theory Spec2Isabelle
  imports Main "HOL-Library.Word" "HOL-Library.Log_Nat"
begin

section \<open>OpenGL scalar types and enumerants\<close>

text \<open>
  The scalar types of the OpenGL headers pulled in by \<^verbatim>\<open>glinclude.h\<close>. Values are kept as
  bit patterns of the width the headers fix; a signed type is read with \<open>sint\<close> where the
  code compares or widens it. A \<^verbatim>\<open>GLfloat\<close> is carried as its 32-bit pattern: the wrappers
  never compute on one.
\<close>

type_synonym GLenum = "32 word"
type_synonym GLuint = "32 word"
type_synonym GLint = "32 word"
type_synonym GLsizei = "32 word"
type_synonym GLboolean = "8 word"
type_synonym GLintptr = "64 word"
type_synonym GLsizeiptr = "64 word"
type_synonym GLuint64 = "64 word"
type_synonym GLfloat = "32 word"
type_synonym size_t = "64 word"
type_synonym pointer = "64 word"

text \<open>Enumerant values as the Khronos registry headers define them.\<close>

definition GL_BYTE :: GLenum where "GL_BYTE = 0x1400"
definition GL_UNSIGNED_BYTE :: GLenum where "GL_UNSIGNED_BYTE = 0x1401"
definition GL_SHORT :: GLenum where "GL_SHORT = 0x1402"
definition GL_UNSIGNED_SHORT :: GLenum where "GL_UNSIGNED_SHORT = 0x1403"
definition GL_INT :: GLenum where "GL_INT = 0x1404"
definition GL_UNSIGNED_INT :: GLenum where "GL_UNSIGNED_INT = 0x1405"
definition GL_FLOAT :: GLenum where "GL_FLOAT = 0x1406"
definition GL_DOUBLE :: GLenum where "GL_DOUBLE = 0x140A"
definition GL_HALF_FLOAT :: GLenum where "GL_HALF_FLOAT = 0x140B"
definition GL_FIXED :: GLenum where "GL_FIXED = 0x140C"
definition GL_INT_2_10_10_10_REV :: GLenum where "GL_INT_2_10_10_10_REV = 0x8D9F"
definition GL_UNSIGNED_INT_2_10_10_10_REV :: GLenum where
  "GL_UNSIGNED_INT_2_10_10_10_REV = 0x8368"
definition GL_UNSIGNED_INT_10F_11F_11F_REV :: GLenum where
  "GL_UNSIGNED_INT_10F_11F_11F_REV = 0x8C3B"

definition GL_NO_ERROR :: GLenum where "GL_NO_ERROR = 0"
definition GL_FALSE :: GLint where "GL_FALSE = 0"
definition GL_TRIANGLES :: GLenum where "GL_TRIANGLES = 0x0004"
definition GL_TEXTURE_2D_ARRAY :: GLenum where "GL_TEXTURE_2D_ARRAY = 0x8C1A"
definition GL_SHADER_STORAGE_BUFFER :: GLenum where "GL_SHADER_STORAGE_BUFFER = 0x90D2"
definition GL_DYNAMIC_DRAW :: GLenum where "GL_DYNAMIC_DRAW = 0x88E8"
definition GL_COMPILE_STATUS :: GLenum where "GL_COMPILE_STATUS = 0x8B81"
definition GL_LINK_STATUS :: GLenum where "GL_LINK_STATUS = 0x8B82"
definition GL_INFO_LOG_LENGTH :: GLenum where "GL_INFO_LOG_LENGTH = 0x8B84"
definition GL_VERTEX_SHADER :: GLenum where "GL_VERTEX_SHADER = 0x8B31"
definition GL_FRAGMENT_SHADER :: GLenum where "GL_FRAGMENT_SHADER = 0x8B30"
definition GL_GEOMETRY_SHADER :: GLenum where "GL_GEOMETRY_SHADER = 0x8DD9"
definition GL_TESS_EVALUATION_SHADER :: GLenum where "GL_TESS_EVALUATION_SHADER = 0x8E87"
definition GL_TESS_CONTROL_SHADER :: GLenum where "GL_TESS_CONTROL_SHADER = 0x8E88"
definition GL_COMPUTE_SHADER :: GLenum where "GL_COMPUTE_SHADER = 0x91B9"

section \<open>VertexLayout.hpp\<close>

text \<open>
  \<^verbatim>\<open>struct VertexLayout::Attribute\<close> and \<^verbatim>\<open>struct VertexLayout\<close>. The fields \<^verbatim>\<open>size\<close> and
  \<^verbatim>\<open>type\<close> of an attribute carry the suffix \<open>_A\<close>, their plain names being taken.
\<close>

record Attribute =
  size_A :: GLint
  type_A :: GLenum
  normalized :: GLboolean
  offset :: GLsizei
  shader_input_type :: GLenum

record VertexLayout =
  stride :: GLsizei
  buffer_start_offset :: GLintptr
  buffer_name :: GLuint
  attributes :: "Attribute list"

text \<open>\<^verbatim>\<open>operator==(Attribute const&, Attribute const&)\<close>, the conjuncts in source order.\<close>

definition Attribute_eq :: "Attribute \<Rightarrow> Attribute \<Rightarrow> bool" where
  "Attribute_eq lhs rhs \<longleftrightarrow>
     normalized lhs = normalized rhs \<and> offset lhs = offset rhs \<and> size_A lhs = size_A rhs \<and>
     type_A lhs = type_A rhs \<and> shader_input_type lhs = shader_input_type rhs"

text \<open>
  The \<^verbatim>\<open>for\<close> loop of \<^verbatim>\<open>operator==(VertexLayout const&, VertexLayout const&)\<close>: the index
  \<open>i\<close> runs up to \<^verbatim>\<open>lhs.attributes.size()\<close> and \<open>rtn\<close> accumulates with \<^verbatim>\<open>&=\<close>. The loop is
  entered only when both vectors have the same size, so both reads are in range.
\<close>

function VertexLayout_eq_loop :: "Attribute list \<Rightarrow> Attribute list \<Rightarrow> nat \<Rightarrow> bool \<Rightarrow> bool" where
  "VertexLayout_eq_loop la ra i rtn =
     (if i < length la
      then VertexLayout_eq_loop la ra (Suc i) (rtn \<and> Attribute_eq (la ! i) (ra ! i))
      else rtn)"
  by pat_completeness auto
termination
  by (relation "measure (\<lambda>(la, ra, i, rtn). length la - i)") auto

declare VertexLayout_eq_loop.simps [simp del]

definition VertexLayout_eq :: "VertexLayout \<Rightarrow> VertexLayout \<Rightarrow> bool" where
  "VertexLayout_eq lhs rhs =
     (let rtn = True;
          rtn = (rtn \<and> stride lhs = stride rhs)
      in if length (attributes lhs) = length (attributes rhs)
         then VertexLayout_eq_loop (attributes lhs) (attributes rhs) 0 rtn
         else False)"

text \<open>\<^verbatim>\<open>computeByteSize\<close>: the \<^verbatim>\<open>switch\<close>, one branch per \<^verbatim>\<open>case\<close> label in source order.\<close>

definition computeByteSize :: "GLenum \<Rightarrow> size_t" where
  "computeByteSize value_type =
     (if value_type = GL_BYTE then 1
      else if value_type = GL_SHORT then 2
      else if value_type = GL_INT then 4
      else if value_type = GL_FIXED then 4
      else if value_type = GL_FLOAT then 4
      else if value_type = GL_HALF_FLOAT then 2
      else if value_type = GL_DOUBLE then 8
      else if value_type = GL_UNSIGNED_BYTE then 1
      else if value_type = GL_UNSIGNED_SHORT then 2
      else if value_type = GL_UNSIGNED_INT then 4
      else if value_type = GL_INT_2_10_10_10_REV then 4
      else if value_type = GL_UNSIGNED_INT_2_10_10_10_REV then 4
      else if value_type = GL_UNSIGNED_INT_10F_11F_11F_REV then 4
      else 0)"

text \<open>
  \<^verbatim>\<open>computeAttributeByteSize\<close>: the \<^verbatim>\<open>GLint\<close> size is converted to \<^verbatim>\<open>std::size_t\<close> (sign
  extension) and the product is taken in \<^verbatim>\<open>std::size_t\<close>.
\<close>

definition computeAttributeByteSize :: "Attribute \<Rightarrow> size_t" where
  "computeAttributeByteSize attrib_desc =
     computeByteSize (type_A attrib_desc) * scast (size_A attrib_desc)"

text \<open>The thirteen enumerants that \<^verbatim>\<open>computeByteSize\<close> has a \<^verbatim>\<open>case\<close> label for.\<close>

definition recognized_types :: "GLenum list" where
  "recognized_types =
     [GL_BYTE, GL_UNSIGNED_BYTE, GL_SHORT, GL_UNSIGNED_SHORT, GL_HALF_FLOAT, GL_INT,
      GL_UNSIGNED_INT, GL_FIXED, GL_FLOAT, GL_INT_2_10_10_10_REV,
      GL_UNSIGNED_INT_2_10_10_10_REV, GL_UNSIGNED_INT_10F_11F_11F_REV, GL_DOUBLE]"

section \<open>Native calls, exceptions and text output\<close>

text \<open>
  A call into the graphics API is recorded as the name of the entry point and its
  arguments in the order of the C prototype. An argument is its bit pattern at the width
  of its C type; a pointer through which the wrapper hands data to the driver is recorded
  as the data it points to (a string, the components of a vector). An output pointer is
  left out: what the driver writes there, or returns, is an input of the model. The calls
  a method issues are collected, in order, in a list.
\<close>

datatype gl_arg =
    W8 "8 word"
  | W32 "32 word"
  | W64 "64 word"
  | Text string
  | Values "32 word list"

datatype gl_call = Call string "gl_arg list"

text \<open>One typed constructor per entry point used by the wrappers.\<close>

definition glCreateVertexArrays :: "GLsizei \<Rightarrow> gl_call" where
  "glCreateVertexArrays a = Call ''glCreateVertexArrays'' [W32 a]"

definition glVertexArrayVertexBuffer :: "GLuint \<Rightarrow> GLuint \<Rightarrow> GLuint \<Rightarrow> GLintptr \<Rightarrow> GLsizei \<Rightarrow> gl_call" where
  "glVertexArrayVertexBuffer a b c d e = Call ''glVertexArrayVertexBuffer'' [W32 a, W32 b, W32 c, W64 d, W32 e]"

definition glEnableVertexArrayAttrib :: "GLuint \<Rightarrow> GLuint \<Rightarrow> gl_call" where
  "glEnableVertexArrayAttrib a b = Call ''glEnableVertexArrayAttrib'' [W32 a, W32 b]"

definition glVertexArrayAttribFormat :: "GLuint \<Rightarrow> GLuint \<Rightarrow> GLint \<Rightarrow> GLenum \<Rightarrow> GLboolean \<Rightarrow> GLuint \<Rightarrow> gl_call" where
  "glVertexArrayAttribFormat a b c d e f = Call ''glVertexArrayAttribFormat'' [W32 a, W32 b, W32 c, W32 d, W8 e, W32 f]"

definition glVertexArrayAttribIFormat :: "GLuint \<Rightarrow> GLuint \<Rightarrow> GLint \<Rightarrow> GLenum \<Rightarrow> GLuint \<Rightarrow> gl_call" where
  "glVertexArrayAttribIFormat a b c d e = Call ''glVertexArrayAttribIFormat'' [W32 a, W32 b, W32 c, W32 d, W32 e]"

definition glVertexArrayAttribLFormat :: "GLuint \<Rightarrow> GLuint \<Rightarrow> GLint \<Rightarrow> GLenum \<Rightarrow> GLuint \<Rightarrow> gl_call" where
  "glVertexArrayAttribLFormat a b c d e = Call ''glVertexArrayAttribLFormat'' [W32 a, W32 b, W32 c, W32 d, W32 e]"

definition glVertexArrayAttribBinding :: "GLuint \<Rightarrow> GLuint \<Rightarrow> GLuint \<Rightarrow> gl_call" where
  "glVertexArrayAttribBinding a b c = Call ''glVertexArrayAttribBinding'' [W32 a, W32 b, W32 c]"

definition glVertexArrayElementBuffer :: "GLuint \<Rightarrow> GLuint \<Rightarrow> gl_call" where
  "glVertexArrayElementBuffer a b = Call ''glVertexArrayElementBuffer'' [W32 a, W32 b]"

definition glBindVertexArray :: "GLuint \<Rightarrow> gl_call" where
  "glBindVertexArray a = Call ''glBindVertexArray'' [W32 a]"

definition glDrawElementsInstanced :: "GLenum \<Rightarrow> GLsizei \<Rightarrow> GLenum \<Rightarrow> pointer \<Rightarrow> GLsizei \<Rightarrow> gl_call" where
  "glDrawElementsInstanced a b c d e = Call ''glDrawElementsInstanced'' [W32 a, W32 b, W32 c, W64 d, W32 e]"

definition glDrawArraysInstanced :: "GLenum \<Rightarrow> GLint \<Rightarrow> GLsizei \<Rightarrow> GLsizei \<Rightarrow> gl_call" where
  "glDrawArraysInstanced a b c d = Call ''glDrawArraysInstanced'' [W32 a, W32 b, W32 c, W32 d]"

definition glGetError :: "gl_call" where
  "glGetError = Call ''glGetError'' []"

definition glCreateProgram :: "gl_call" where
  "glCreateProgram = Call ''glCreateProgram'' []"

definition glDeleteProgram :: "GLuint \<Rightarrow> gl_call" where
  "glDeleteProgram a = Call ''glDeleteProgram'' [W32 a]"

definition glCreateShader :: "GLenum \<Rightarrow> gl_call" where
  "glCreateShader a = Call ''glCreateShader'' [W32 a]"

definition glShaderSource :: "GLuint \<Rightarrow> GLsizei \<Rightarrow> string \<Rightarrow> gl_call" where
  "glShaderSource a b c = Call ''glShaderSource'' [W32 a, W32 b, Text c]"

definition glCompileShader :: "GLuint \<Rightarrow> gl_call" where
  "glCompileShader a = Call ''glCompileShader'' [W32 a]"

definition glGetShaderiv :: "GLuint \<Rightarrow> GLenum \<Rightarrow> gl_call" where
  "glGetShaderiv a b = Call ''glGetShaderiv'' [W32 a, W32 b]"

definition glGetShaderInfoLog :: "GLuint \<Rightarrow> GLsizei \<Rightarrow> gl_call" where
  "glGetShaderInfoLog a b = Call ''glGetShaderInfoLog'' [W32 a, W32 b]"

definition glDeleteShader :: "GLuint \<Rightarrow> gl_call" where
  "glDeleteShader a = Call ''glDeleteShader'' [W32 a]"

definition glAttachShader :: "GLuint \<Rightarrow> GLuint \<Rightarrow> gl_call" where
  "glAttachShader a b = Call ''glAttachShader'' [W32 a, W32 b]"

definition glLinkProgram :: "GLuint \<Rightarrow> gl_call" where
  "glLinkProgram a = Call ''glLinkProgram'' [W32 a]"

definition glGetProgramiv :: "GLuint \<Rightarrow> GLenum \<Rightarrow> gl_call" where
  "glGetProgramiv a b = Call ''glGetProgramiv'' [W32 a, W32 b]"

definition glGetProgramInfoLog :: "GLuint \<Rightarrow> GLsizei \<Rightarrow> gl_call" where
  "glGetProgramInfoLog a b = Call ''glGetProgramInfoLog'' [W32 a, W32 b]"

definition glUseProgram :: "GLuint \<Rightarrow> gl_call" where
  "glUseProgram a = Call ''glUseProgram'' [W32 a]"

definition glBindAttribLocation :: "GLuint \<Rightarrow> GLuint \<Rightarrow> string \<Rightarrow> gl_call" where
  "glBindAttribLocation a b c = Call ''glBindAttribLocation'' [W32 a, W32 b, Text c]"

definition glBindFragDataLocation :: "GLuint \<Rightarrow> GLuint \<Rightarrow> string \<Rightarrow> gl_call" where
  "glBindFragDataLocation a b c = Call ''glBindFragDataLocation'' [W32 a, W32 b, Text c]"

definition glGetUniformLocation :: "GLuint \<Rightarrow> string \<Rightarrow> gl_call" where
  "glGetUniformLocation a b = Call ''glGetUniformLocation'' [W32 a, Text b]"

definition glUniform1f :: "GLint \<Rightarrow> GLfloat \<Rightarrow> gl_call" where
  "glUniform1f a b = Call ''glUniform1f'' [W32 a, W32 b]"

definition glUniform2f :: "GLint \<Rightarrow> GLfloat \<Rightarrow> GLfloat \<Rightarrow> gl_call" where
  "glUniform2f a b c = Call ''glUniform2f'' [W32 a, W32 b, W32 c]"

definition glUniform3f :: "GLint \<Rightarrow> GLfloat \<Rightarrow> GLfloat \<Rightarrow> GLfloat \<Rightarrow> gl_call" where
  "glUniform3f a b c d = Call ''glUniform3f'' [W32 a, W32 b, W32 c, W32 d]"

definition glUniform4f :: "GLint \<Rightarrow> GLfloat \<Rightarrow> GLfloat \<Rightarrow> GLfloat \<Rightarrow> GLfloat \<Rightarrow> gl_call" where
  "glUniform4f a b c d e = Call ''glUniform4f'' [W32 a, W32 b, W32 c, W32 d, W32 e]"

definition glUniform1i :: "GLint \<Rightarrow> GLint \<Rightarrow> gl_call" where
  "glUniform1i a b = Call ''glUniform1i'' [W32 a, W32 b]"

definition glUniform2i :: "GLint \<Rightarrow> GLint \<Rightarrow> GLint \<Rightarrow> gl_call" where
  "glUniform2i a b c = Call ''glUniform2i'' [W32 a, W32 b, W32 c]"

definition glUniform3i :: "GLint \<Rightarrow> GLint \<Rightarrow> GLint \<Rightarrow> GLint \<Rightarrow> gl_call" where
  "glUniform3i a b c d = Call ''glUniform3i'' [W32 a, W32 b, W32 c, W32 d]"

definition glUniform4i :: "GLint \<Rightarrow> GLint \<Rightarrow> GLint \<Rightarrow> GLint \<Rightarrow> GLint \<Rightarrow> gl_call" where
  "glUniform4i a b c d e = Call ''glUniform4i'' [W32 a, W32 b, W32 c, W32 d, W32 e]"

definition glUniform1ui :: "GLint \<Rightarrow> GLuint \<Rightarrow> gl_call" where
  "glUniform1ui a b = Call ''glUniform1ui'' [W32 a, W32 b]"

definition glUniform2ui :: "GLint \<Rightarrow> GLuint \<Rightarrow> GLuint \<Rightarrow> gl_call" where
  "glUniform2ui a b c = Call ''glUniform2ui'' [W32 a, W32 b, W32 c]"

definition glUniform3ui :: "GLint \<Rightarrow> GLuint \<Rightarrow> GLuint \<Rightarrow> GLuint \<Rightarrow> gl_call" where
  "glUniform3ui a b c d = Call ''glUniform3ui'' [W32 a, W32 b, W32 c, W32 d]"

definition glUniform4ui :: "GLint \<Rightarrow> GLuint \<Rightarrow> GLuint \<Rightarrow> GLuint \<Rightarrow> GLuint \<Rightarrow> gl_call" where
  "glUniform4ui a b c d e = Call ''glUniform4ui'' [W32 a, W32 b, W32 c, W32 d, W32 e]"

definition glUniform2fv :: "GLint \<Rightarrow> GLsizei \<Rightarrow> GLfloat list \<Rightarrow> gl_call" where
  "glUniform2fv a b c = Call ''glUniform2fv'' [W32 a, W32 b, Values c]"

definition glUniform3fv :: "GLint \<Rightarrow> GLsizei \<Rightarrow> GLfloat list \<Rightarrow> gl_call" where
  "glUniform3fv a b c = Call ''glUniform3fv'' [W32 a, W32 b, Values c]"

definition glUniform4fv :: "GLint \<Rightarrow> GLsizei \<Rightarrow> GLfloat list \<Rightarrow> gl_call" where
  "glUniform4fv a b c = Call ''glUniform4fv'' [W32 a, W32 b, Values c]"

definition glUniform2iv :: "GLint \<Rightarrow> GLsizei \<Rightarrow> GLint list \<Rightarrow> gl_call" where
  "glUniform2iv a b c = Call ''glUniform2iv'' [W32 a, W32 b, Values c]"

definition glUniform3iv :: "GLint \<Rightarrow> GLsizei \<Rightarrow> GLint list \<Rightarrow> gl_call" where
  "glUniform3iv a b c = Call ''glUniform3iv'' [W32 a, W32 b, Values c]"

definition glUniform4iv :: "GLint \<Rightarrow> GLsizei \<Rightarrow> GLint list \<Rightarrow> gl_call" where
  "glUniform4iv a b c = Call ''glUniform4iv'' [W32 a, W32 b, Values c]"

definition glUniformMatrix2fv :: "GLint \<Rightarrow> GLsizei \<Rightarrow> GLboolean \<Rightarrow> GLfloat list \<Rightarrow> gl_call" where
  "glUniformMatrix2fv a b c d = Call ''glUniformMatrix2fv'' [W32 a, W32 b, W8 c, Values d]"

definition glUniformMatrix3fv :: "GLint \<Rightarrow> GLsizei \<Rightarrow> GLboolean \<Rightarrow> GLfloat list \<Rightarrow> gl_call" where
  "glUniformMatrix3fv a b c d = Call ''glUniformMatrix3fv'' [W32 a, W32 b, W8 c, Values d]"

definition glUniformMatrix4fv :: "GLint \<Rightarrow> GLsizei \<Rightarrow> GLboolean \<Rightarrow> GLfloat list \<Rightarrow> gl_call" where
  "glUniformMatrix4fv a b c d = Call ''glUniformMatrix4fv'' [W32 a, W32 b, W8 c, Values d]"

definition glGenTextures :: "GLsizei \<Rightarrow> gl_call" where
  "glGenTextures a = Call ''glGenTextures'' [W32 a]"

definition glBindTexture :: "GLenum \<Rightarrow> GLuint \<Rightarrow> gl_call" where
  "glBindTexture a b = Call ''glBindTexture'' [W32 a, W32 b]"

definition glTexParameteri :: "GLenum \<Rightarrow> GLenum \<Rightarrow> GLint \<Rightarrow> gl_call" where
  "glTexParameteri a b c = Call ''glTexParameteri'' [W32 a, W32 b, W32 c]"

definition glTexParameterf :: "GLenum \<Rightarrow> GLenum \<Rightarrow> GLfloat \<Rightarrow> gl_call" where
  "glTexParameterf a b c = Call ''glTexParameterf'' [W32 a, W32 b, W32 c]"

definition glTexStorage3D :: "GLenum \<Rightarrow> GLsizei \<Rightarrow> GLenum \<Rightarrow> GLsizei \<Rightarrow> GLsizei \<Rightarrow> GLsizei \<Rightarrow> gl_call" where
  "glTexStorage3D a b c d e f = Call ''glTexStorage3D'' [W32 a, W32 b, W32 c, W32 d, W32 e, W32 f]"

definition glTexSubImage3D :: "GLenum \<Rightarrow> GLint \<Rightarrow> GLint \<Rightarrow> GLint \<Rightarrow> GLint \<Rightarrow> GLsizei \<Rightarrow> GLsizei \<Rightarrow> GLsizei \<Rightarrow> GLenum \<Rightarrow> GLenum \<Rightarrow> pointer \<Rightarrow> gl_call" where
  "glTexSubImage3D a b c d e f g h i j k = Call ''glTexSubImage3D'' [W32 a, W32 b, W32 c, W32 d, W32 e, W32 f, W32 g, W32 h, W32 i, W32 j, W64 k]"

definition glGenerateMipmap :: "GLenum \<Rightarrow> gl_call" where
  "glGenerateMipmap a = Call ''glGenerateMipmap'' [W32 a]"

definition glGetTextureHandleARB :: "GLuint \<Rightarrow> gl_call" where
  "glGetTextureHandleARB a = Call ''glGetTextureHandleARB'' [W32 a]"

definition glGenBuffers :: "GLsizei \<Rightarrow> gl_call" where
  "glGenBuffers a = Call ''glGenBuffers'' [W32 a]"

definition glBindBuffer :: "GLenum \<Rightarrow> GLuint \<Rightarrow> gl_call" where
  "glBindBuffer a b = Call ''glBindBuffer'' [W32 a, W32 b]"

definition glBufferData :: "GLenum \<Rightarrow> GLsizeiptr \<Rightarrow> pointer \<Rightarrow> GLenum \<Rightarrow> gl_call" where
  "glBufferData a b c d = Call ''glBufferData'' [W32 a, W64 b, W64 c, W32 d]"

definition glBindBufferBase :: "GLenum \<Rightarrow> GLuint \<Rightarrow> GLuint \<Rightarrow> gl_call" where
  "glBindBufferBase a b c = Call ''glBindBufferBase'' [W32 a, W32 b, W32 c]"

text \<open>
  Modelled from the spec: the declarations of the two exception classes the wrappers throw
  (\<^verbatim>\<open>MeshException\<close>, \<^verbatim>\<open>GLSLProgramException\<close>) are not among the sources. They are
  generic exceptions constructed from a message, so an exception is its class and that
  message.
\<close>

datatype exn = MeshException string | GLSLProgramException string

text \<open>
  Decimal text of an unsigned number, as \<^verbatim>\<open>std::to_string\<close> and \<^verbatim>\<open>operator<<\<close> give for
  an \<^verbatim>\<open>unsigned int\<close>.
\<close>

definition digit_char :: "nat \<Rightarrow> char" where
  "digit_char d = char_of (48 + d)"

fun to_string :: "nat \<Rightarrow> string" where
  "to_string n = (if n < 10 then [digit_char n] else to_string (n div 10) @ [digit_char (n mod 10)])"

declare to_string.simps [simp del]

definition endl :: string where
  "endl = [CHR 0x0A]"

section \<open>VertexArrayObject\<close>

text \<open>The data members of \<^verbatim>\<open>class VertexArrayObject\<close>.\<close>

record VertexArrayObject =
  m_va_handle :: GLuint
  m_vertex_descriptor :: "VertexLayout list"
  m_primitive_type :: GLenum
  m_draw_items_count :: GLsizei
  m_index_type :: GLenum
  m_index_buffer_name :: GLuint

text \<open>
  What the driver answers during construction: the name that \<^verbatim>\<open>glCreateVertexArrays\<close>
  leaves in \<^verbatim>\<open>m_va_handle\<close>, and the value \<^verbatim>\<open>glGetError\<close> returns.
\<close>

record va_reply =
  va_handle_reply :: GLuint
  va_error_reply :: GLenum

definition invalid_input_type_msg :: string where
  "invalid_input_type_msg =
     ''Mesh::createVertexArray - invalid vertex shader input type given (use float, double or int)''"

text \<open>
  The inner loop of \<^verbatim>\<open>createVertexArray\<close> over \<^verbatim>\<open>descr.attributes\<close>. \<open>binding\<close> is
  \<^verbatim>\<open>static_cast<GLuint>(vertex_layout_idx)\<close>. The result is the exception thrown by the
  \<^verbatim>\<open>default\<close> branch, or \<^verbatim>\<open>global_attrib_idx\<close> after the loop, together with the calls
  issued up to there.
\<close>

fun attribute_loop ::
  "GLuint \<Rightarrow> GLuint \<Rightarrow> Attribute list \<Rightarrow> GLuint \<Rightarrow> (exn + GLuint) \<times> gl_call list" where
  "attribute_loop va_handle binding [] global_attrib_idx = (Inr global_attrib_idx, [])"
| "attribute_loop va_handle binding (attribute # rest) global_attrib_idx =
     (let enable = glEnableVertexArrayAttrib va_handle global_attrib_idx;
          after = (\<lambda>format_call.
            (case attribute_loop va_handle binding rest (global_attrib_idx + 1) of
               (r, calls) \<Rightarrow>
                 (r, enable # format_call #
                     glVertexArrayAttribBinding va_handle global_attrib_idx binding # calls)))
      in if shader_input_type attribute = GL_FLOAT then
           after (glVertexArrayAttribFormat va_handle global_attrib_idx (size_A attribute)
                    (type_A attribute) (normalized attribute) (offset attribute))
         else if shader_input_type attribute = GL_INT
                 \<or> shader_input_type attribute = GL_UNSIGNED_INT then
           after (glVertexArrayAttribIFormat va_handle global_attrib_idx (size_A attribute)
                    (type_A attribute) (offset attribute))
         else if shader_input_type attribute = GL_DOUBLE then
           after (glVertexArrayAttribLFormat va_handle global_attrib_idx (size_A attribute)
                    (type_A attribute) (offset attribute))
         else (Inl (MeshException invalid_input_type_msg), [enable]))"

text \<open>
  The outer loop over \<^verbatim>\<open>m_vertex_descriptor\<close>, with the counters \<^verbatim>\<open>vertex_layout_idx\<close>
  (a \<^verbatim>\<open>std::size_t\<close>) and \<^verbatim>\<open>global_attrib_idx\<close> (a \<^verbatim>\<open>GLuint\<close>).
\<close>

fun layout_loop ::
  "GLuint \<Rightarrow> VertexLayout list \<Rightarrow> size_t \<Rightarrow> GLuint \<Rightarrow> (exn + unit) \<times> gl_call list" where
  "layout_loop va_handle [] vertex_layout_idx global_attrib_idx = (Inr (), [])"
| "layout_loop va_handle (descr # rest) vertex_layout_idx global_attrib_idx =
     (let bind_buffer = glVertexArrayVertexBuffer va_handle (ucast vertex_layout_idx)
            (buffer_name descr) (buffer_start_offset descr) (stride descr)
      in case attribute_loop va_handle (ucast vertex_layout_idx) (attributes descr)
                global_attrib_idx of
           (Inl e, calls) \<Rightarrow> (Inl e, bind_buffer # calls)
         | (Inr global_attrib_idx', calls) \<Rightarrow>
             (case layout_loop va_handle rest (vertex_layout_idx + 1) global_attrib_idx' of
                (r, calls') \<Rightarrow> (r, bind_buffer # calls @ calls')))"

text \<open>
  \<^verbatim>\<open>createVertexArray\<close>: the object with \<^verbatim>\<open>m_va_handle\<close> set, or the exception, and the
  calls issued.
\<close>

definition createVertexArray ::
  "GLuint \<Rightarrow> VertexArrayObject \<Rightarrow> (exn + VertexArrayObject) \<times> gl_call list" where
  "createVertexArray handle_reply this =
     (let this = this\<lparr>m_va_handle := handle_reply\<rparr>
      in case layout_loop (m_va_handle this) (m_vertex_descriptor this) 0 0 of
           (Inl e, calls) \<Rightarrow> (Inl e, glCreateVertexArrays 1 # calls)
         | (Inr _, calls) \<Rightarrow>
             (Inr this,
              glCreateVertexArrays 1 # calls @
                (if m_index_buffer_name this \<noteq> 0
                 then [glVertexArrayElementBuffer (m_va_handle this) (m_index_buffer_name this)]
                 else [])))"

text \<open>\<^verbatim>\<open>checkError\<close>: the exception, if one is thrown, and the one call issued.\<close>

definition checkError :: "GLenum \<Rightarrow> exn option \<times> gl_call list" where
  "checkError err =
     (if err \<noteq> GL_NO_ERROR
      then (Some (MeshException (''Mesh::Mesh - OpenGL error '' @ to_string (unat err))),
            [glGetError])
      else (None, [glGetError]))"

text \<open>
  The constructor taking the layout descriptors: member initialisers, then
  \<^verbatim>\<open>createVertexArray()\<close>, then \<^verbatim>\<open>checkError()\<close>.
\<close>

definition VertexArrayObject_ctor ::
  "va_reply \<Rightarrow> VertexLayout list \<Rightarrow> GLsizei \<Rightarrow> GLuint \<Rightarrow> GLenum \<Rightarrow> GLenum
     \<Rightarrow> (exn + VertexArrayObject) \<times> gl_call list" where
  "VertexArrayObject_ctor reply vertex_descriptor draw_items_count index_buffer_name
       index_data_type primitive_type =
     (let this = \<lparr>m_va_handle = 0, m_vertex_descriptor = vertex_descriptor,
                   m_primitive_type = primitive_type, m_draw_items_count = draw_items_count,
                   m_index_type = index_data_type, m_index_buffer_name = index_buffer_name\<rparr>
      in case createVertexArray (va_handle_reply reply) this of
           (Inl e, calls) \<Rightarrow> (Inl e, calls)
         | (Inr this, calls) \<Rightarrow>
             (case checkError (va_error_reply reply) of
                (Some e, calls') \<Rightarrow> (Inl e, calls @ calls')
              | (None, calls') \<Rightarrow> (Inr this, calls @ calls')))"

definition VertexArrayObject_bind :: "VertexArrayObject \<Rightarrow> gl_call list" where
  "VertexArrayObject_bind this = [glBindVertexArray (m_va_handle this)]"

text \<open>\<^verbatim>\<open>draw\<close>; \<^verbatim>\<open>nullptr\<close> is the pointer 0.\<close>

definition VertexArrayObject_draw :: "VertexArrayObject \<Rightarrow> GLsizei \<Rightarrow> gl_call list" where
  "VertexArrayObject_draw this instance_cnt =
     glBindVertexArray (m_va_handle this) #
     (if m_index_buffer_name this \<noteq> 0 \<and> m_draw_items_count this \<noteq> 0
      then glDrawElementsInstanced (m_primitive_type this) (m_draw_items_count this)
             (m_index_type this) 0 instance_cnt
      else glDrawArraysInstanced (m_primitive_type this) 0 (m_draw_items_count this)
             instance_cnt) #
     [glBindVertexArray 0]"

definition getVertexLayouts :: "VertexArrayObject \<Rightarrow> VertexLayout list" where
  "getVertexLayouts this = m_vertex_descriptor this"

text \<open>
  The call sequence a descriptor stands for, written from its description: the create call;
  for layout \<open>j\<close> a buffer bind at binding index \<open>j\<close>; for its attributes an enable call,
  the format call picked by \<^verbatim>\<open>shader_input_type\<close> and a binding call to \<open>j\<close>, the attribute
  index counting on from the attributes of the layouts before; last the element-buffer
  bind when an index buffer is named. Indices are \<^verbatim>\<open>GLuint\<close>, so a count \<open>n\<close> appears as
  \<open>of_nat n\<close>.
\<close>

definition valid_input_type :: "GLenum \<Rightarrow> bool" where
  "valid_input_type t \<longleftrightarrow> t = GL_FLOAT \<or> t = GL_INT \<or> t = GL_UNSIGNED_INT \<or> t = GL_DOUBLE"

definition valid_descriptor :: "VertexLayout list \<Rightarrow> bool" where
  "valid_descriptor vd \<longleftrightarrow>
     list_all (\<lambda>descr. list_all (\<lambda>a. valid_input_type (shader_input_type a)) (attributes descr)) vd"

definition expected_format_call :: "GLuint \<Rightarrow> GLuint \<Rightarrow> Attribute \<Rightarrow> gl_call" where
  "expected_format_call h idx a =
     (if shader_input_type a = GL_FLOAT
      then glVertexArrayAttribFormat h idx (size_A a) (type_A a) (normalized a) (offset a)
      else if shader_input_type a = GL_INT \<or> shader_input_type a = GL_UNSIGNED_INT
      then glVertexArrayAttribIFormat h idx (size_A a) (type_A a) (offset a)
      else glVertexArrayAttribLFormat h idx (size_A a) (type_A a) (offset a))"

definition expected_attribute_calls :: "GLuint \<Rightarrow> nat \<Rightarrow> nat \<Rightarrow> Attribute \<Rightarrow> gl_call list" where
  "expected_attribute_calls h j k a =
     [glEnableVertexArrayAttrib h (of_nat k), expected_format_call h (of_nat k) a,
      glVertexArrayAttribBinding h (of_nat k) (of_nat j)]"

definition attrib_base :: "VertexLayout list \<Rightarrow> nat \<Rightarrow> nat" where
  "attrib_base vd j = sum_list (map (\<lambda>descr. length (attributes descr)) (take j vd))"

definition expected_layout_calls :: "GLuint \<Rightarrow> nat \<Rightarrow> nat \<Rightarrow> VertexLayout \<Rightarrow> gl_call list" where
  "expected_layout_calls h j base descr =
     glVertexArrayVertexBuffer h (of_nat j) (buffer_name descr) (buffer_start_offset descr)
       (stride descr) #
     concat (map (\<lambda>i. expected_attribute_calls h j (base + i) (attributes descr ! i))
               [0..<length (attributes descr)])"

definition expected_calls :: "GLuint \<Rightarrow> VertexLayout list \<Rightarrow> GLuint \<Rightarrow> gl_call list" where
  "expected_calls h vd index_buffer_name =
     glCreateVertexArrays 1 #
     concat (map (\<lambda>j. expected_layout_calls h j (attrib_base vd j) (vd ! j)) [0..<length vd]) @
     (if index_buffer_name \<noteq> 0 then [glVertexArrayElementBuffer h index_buffer_name] else [])"

section \<open>GLSLProgram\<close>

datatype ShaderType = Vertex | TessControl | TessEvaluation | Geometry | Fragment | Compute

text \<open>The enumerator values of \<^verbatim>\<open>enum ShaderType\<close>.\<close>

fun ShaderType_value :: "ShaderType \<Rightarrow> GLenum" where
  "ShaderType_value Vertex = GL_VERTEX_SHADER"
| "ShaderType_value TessControl = GL_TESS_CONTROL_SHADER"
| "ShaderType_value TessEvaluation = GL_TESS_EVALUATION_SHADER"
| "ShaderType_value Geometry = GL_GEOMETRY_SHADER"
| "ShaderType_value Fragment = GL_FRAGMENT_SHADER"
| "ShaderType_value Compute = GL_COMPUTE_SHADER"

type_synonym ShaderSourceList = "(ShaderType \<times> string) list"

record GLSLProgram =
  m_handle :: GLuint
  m_debug_label :: string

text \<open>
  What the driver answers while one shader is compiled: the name \<^verbatim>\<open>glCreateShader\<close>
  returns, the values of \<^verbatim>\<open>compile_status\<close> and \<^verbatim>\<open>info_log_length\<close> after their
  \<^verbatim>\<open>glGetShaderiv\<close> queries, and the text that \<^verbatim>\<open>std::string(info_log.data())\<close> reads from
  the buffer \<^verbatim>\<open>glGetShaderInfoLog\<close> has filled.
\<close>

record shader_reply =
  shader_handle :: GLuint
  compile_status :: GLint
  shader_log_length :: GLint
  shader_log :: string

text \<open>
  What the driver answers during construction of a program: the name
  \<^verbatim>\<open>glCreateProgram\<close> returns, the answers for the shader at each position of the source
  list, and for \<^verbatim>\<open>link()\<close> the values of \<^verbatim>\<open>link_status\<close> and \<^verbatim>\<open>info_log_length\<close> and the
  text read from the log buffer.
\<close>

record program_reply =
  program_handle :: GLuint
  shader_replies :: "nat \<Rightarrow> shader_reply"
  link_status :: GLint
  program_log_length :: GLint
  program_log :: string

text \<open>\<^verbatim>\<open>compileShaderFromString\<close>: the exception thrown, if any, and the calls issued.\<close>

definition compileShaderFromString ::
  "GLuint \<Rightarrow> shader_reply \<Rightarrow> ShaderType \<Rightarrow> string \<Rightarrow> exn option \<times> gl_call list" where
  "compileShaderFromString handle reply shaderType source =
     (if source = [] then (Some (GLSLProgramException ''No shader source.''), [])
      else
        let shader = shader_handle reply;
            calls = [glCreateShader (ShaderType_value shaderType), glShaderSource shader 1 source,
                     glCompileShader shader, glGetShaderiv shader GL_COMPILE_STATUS]
        in if compile_status reply = GL_FALSE then
             (let calls = calls @ [glGetShaderiv shader GL_INFO_LOG_LENGTH]
              in if 0 <s shader_log_length reply
                 then (Some (GLSLProgramException (shader_log reply)),
                       calls @ [glGetShaderInfoLog shader (shader_log_length reply),
                                glDeleteShader shader])
                 else (Some (GLSLProgramException []), calls @ [glDeleteShader shader]))
           else (None, calls @ [glAttachShader handle shader, glDeleteShader shader]))"

text \<open>\<^verbatim>\<open>link\<close>.\<close>

definition link :: "GLuint \<Rightarrow> program_reply \<Rightarrow> exn option \<times> gl_call list" where
  "link handle reply =
     (let calls = [glLinkProgram handle, glGetProgramiv handle GL_LINK_STATUS]
      in if link_status reply = GL_FALSE then
           (let calls = calls @ [glGetProgramiv handle GL_INFO_LOG_LENGTH]
            in if 0 <s program_log_length reply
               then (Some (GLSLProgramException (program_log reply)),
                     calls @ [glGetProgramInfoLog handle (program_log_length reply)])
               else (Some (GLSLProgramException []), calls))
         else (None, calls))"

text \<open>
  The \<^verbatim>\<open>for\<close> loop of the constructor over \<^verbatim>\<open>shaderList\<close>; \<open>i\<close> is the position of the
  first remaining shader in the list.
\<close>

fun compile_loop ::
  "GLuint \<Rightarrow> (nat \<Rightarrow> shader_reply) \<Rightarrow> nat \<Rightarrow> ShaderSourceList \<Rightarrow> exn option \<times> gl_call list" where
  "compile_loop handle replies i [] = (None, [])"
| "compile_loop handle replies i (shader # rest) =
     (case compileShaderFromString handle (replies i) (fst shader) (snd shader) of
        (Some e, calls) \<Rightarrow> (Some e, calls)
      | (None, calls) \<Rightarrow>
          (case compile_loop handle replies (Suc i) rest of
             (r, calls') \<Rightarrow> (r, calls @ calls')))"

text \<open>
  The constructor: \<^verbatim>\<open>glCreateProgram\<close>, the \<^verbatim>\<open>try\<close> block, and the \<^verbatim>\<open>catch (...)\<close> handler
  that deletes the program and rethrows.
\<close>

definition GLSLProgram_ctor ::
  "program_reply \<Rightarrow> ShaderSourceList \<Rightarrow> (exn + GLSLProgram) \<times> gl_call list" where
  "GLSLProgram_ctor reply shaderList =
     (let this = \<lparr>m_handle = program_handle reply, m_debug_label = []\<rparr>;
          try_block =
            (case compile_loop (m_handle this) (shader_replies reply) 0 shaderList of
               (Some e, calls) \<Rightarrow> (Some e, calls)
             | (None, calls) \<Rightarrow>
                 (case link (m_handle this) reply of (r, calls') \<Rightarrow> (r, calls @ calls')))
      in case try_block of
           (Some e, calls) \<Rightarrow> (Inl e, glCreateProgram # calls @ [glDeleteProgram (m_handle this)])
         | (None, calls) \<Rightarrow> (Inr this, glCreateProgram # calls))"

definition use :: "GLSLProgram \<Rightarrow> gl_call list" where
  "use this = [glUseProgram (m_handle this)]"

definition getHandle :: "GLSLProgram \<Rightarrow> GLuint" where
  "getHandle this = m_handle this"

definition bindAttribLocation :: "GLSLProgram \<Rightarrow> GLuint \<Rightarrow> string \<Rightarrow> gl_call list" where
  "bindAttribLocation this location name = [glBindAttribLocation (m_handle this) location name]"

definition bindFragDataLocation :: "GLSLProgram \<Rightarrow> GLuint \<Rightarrow> string \<Rightarrow> gl_call list" where
  "bindFragDataLocation this location name =
     [glBindFragDataLocation (m_handle this) location name]"

text \<open>
  \<^verbatim>\<open>getUniformLocation\<close>: \<open>location_reply\<close> is the \<^verbatim>\<open>GLint\<close> that \<^verbatim>\<open>glGetUniformLocation\<close>
  returns; the method returns it as a \<^verbatim>\<open>GLuint\<close>, the same 32 bits.
\<close>

definition getUniformLocation :: "GLSLProgram \<Rightarrow> GLint \<Rightarrow> string \<Rightarrow> GLuint \<times> gl_call list" where
  "getUniformLocation this location_reply name =
     (location_reply, [glGetUniformLocation (m_handle this) name])"

text \<open>
  The vector and matrix types of glm, as their components in memory order (a matrix by
  columns); \<^verbatim>\<open>glm::value_ptr\<close> points at the first component.
\<close>

type_synonym vec2 = "GLfloat \<times> GLfloat"
type_synonym vec3 = "GLfloat \<times> GLfloat \<times> GLfloat"
type_synonym vec4 = "GLfloat \<times> GLfloat \<times> GLfloat \<times> GLfloat"
type_synonym ivec2 = "GLint \<times> GLint"
type_synonym ivec3 = "GLint \<times> GLint \<times> GLint"
type_synonym ivec4 = "GLint \<times> GLint \<times> GLint \<times> GLint"
type_synonym mat2 = "vec2 \<times> vec2"
type_synonym mat3 = "vec3 \<times> vec3 \<times> vec3"
type_synonym mat4 = "vec4 \<times> vec4 \<times> vec4 \<times> vec4"

fun value_ptr2 :: "'a \<times> 'a \<Rightarrow> 'a list" where
  "value_ptr2 (x, y) = [x, y]"

fun value_ptr3 :: "'a \<times> 'a \<times> 'a \<Rightarrow> 'a list" where
  "value_ptr3 (x, y, z) = [x, y, z]"

fun value_ptr4 :: "'a \<times> 'a \<times> 'a \<times> 'a \<Rightarrow> 'a list" where
  "value_ptr4 (x, y, z, w) = [x, y, z, w]"

definition value_ptr_mat2 :: "mat2 \<Rightarrow> GLfloat list" where
  "value_ptr_mat2 m = concat (map value_ptr2 (value_ptr2 m))"

definition value_ptr_mat3 :: "mat3 \<Rightarrow> GLfloat list" where
  "value_ptr_mat3 m = concat (map value_ptr3 (value_ptr3 m))"

definition value_ptr_mat4 :: "mat4 \<Rightarrow> GLfloat list" where
  "value_ptr_mat4 m = concat (map value_ptr4 (value_ptr4 m))"

text \<open>
  The overloads of \<^verbatim>\<open>setUniform\<close>, named after the upload call each one forwards to. The
  argument \<^verbatim>\<open>getUniformLocation(name)\<close> is evaluated first, which issues the location
  query; \<open>location_reply\<close> is the driver's answer to it.
\<close>

definition setUniform_1f :: "GLSLProgram \<Rightarrow> GLint \<Rightarrow> string \<Rightarrow> GLfloat \<Rightarrow> gl_call list" where
  "setUniform_1f this location_reply name v0 =
     (case getUniformLocation this location_reply name of
        (location, calls) \<Rightarrow> calls @ [glUniform1f location v0])"

definition setUniform_2f :: "GLSLProgram \<Rightarrow> GLint \<Rightarrow> string \<Rightarrow> GLfloat \<Rightarrow> GLfloat \<Rightarrow> gl_call list" where
  "setUniform_2f this location_reply name v0 v1 =
     (case getUniformLocation this location_reply name of
        (location, calls) \<Rightarrow> calls @ [glUniform2f location v0 v1])"

definition setUniform_3f :: "GLSLProgram \<Rightarrow> GLint \<Rightarrow> string \<Rightarrow> GLfloat \<Rightarrow> GLfloat \<Rightarrow> GLfloat \<Rightarrow> gl_call list" where
  "setUniform_3f this location_reply name v0 v1 v2 =
     (case getUniformLocation this location_reply name of
        (location, calls) \<Rightarrow> calls @ [glUniform3f location v0 v1 v2])"

definition setUniform_4f :: "GLSLProgram \<Rightarrow> GLint \<Rightarrow> string \<Rightarrow> GLfloat \<Rightarrow> GLfloat \<Rightarrow> GLfloat \<Rightarrow> GLfloat \<Rightarrow> gl_call list" where
  "setUniform_4f this location_reply name v0 v1 v2 v3 =
     (case getUniformLocation this location_reply name of
        (location, calls) \<Rightarrow> calls @ [glUniform4f location v0 v1 v2 v3])"

definition setUniform_1i :: "GLSLProgram \<Rightarrow> GLint \<Rightarrow> string \<Rightarrow> GLint \<Rightarrow> gl_call list" where
  "setUniform_1i this location_reply name v0 =
     (case getUniformLocation this location_reply name of
        (location, calls) \<Rightarrow> calls @ [glUniform1i location v0])"

definition setUniform_2i :: "GLSLProgram \<Rightarrow> GLint \<Rightarrow> string \<Rightarrow> GLint \<Rightarrow> GLint \<Rightarrow> gl_call list" where
  "setUniform_2i this location_reply name v0 v1 =
     (case getUniformLocation this location_reply name of
        (location, calls) \<Rightarrow> calls @ [glUniform2i location v0 v1])"

definition setUniform_3i :: "GLSLProgram \<Rightarrow> GLint \<Rightarrow> string \<Rightarrow> GLint \<Rightarrow> GLint \<Rightarrow> GLint \<Rightarrow> gl_call list" where
  "setUniform_3i this location_reply name v0 v1 v2 =
     (case getUniformLocation this location_reply name of
        (location, calls) \<Rightarrow> calls @ [glUniform3i location v0 v1 v2])"

definition setUniform_4i :: "GLSLProgram \<Rightarrow> GLint \<Rightarrow> string \<Rightarrow> GLint \<Rightarrow> GLint \<Rightarrow> GLint \<Rightarrow> GLint \<Rightarrow> gl_call list" where
  "setUniform_4i this location_reply name v0 v1 v2 v3 =
     (case getUniformLocation this location_reply name of
        (location, calls) \<Rightarrow> calls @ [glUniform4i location v0 v1 v2 v3])"

definition setUniform_1ui :: "GLSLProgram \<Rightarrow> GLint \<Rightarrow> string \<Rightarrow> GLuint \<Rightarrow> gl_call list" where
  "setUniform_1ui this location_reply name v0 =
     (case getUniformLocation this location_reply name of
        (location, calls) \<Rightarrow> calls @ [glUniform1ui location v0])"

definition setUniform_2ui :: "GLSLProgram \<Rightarrow> GLint \<Rightarrow> string \<Rightarrow> GLuint \<Rightarrow> GLuint \<Rightarrow> gl_call list" where
  "setUniform_2ui this location_reply name v0 v1 =
     (case getUniformLocation this location_reply name of
        (location, calls) \<Rightarrow> calls @ [glUniform2ui location v0 v1])"

definition setUniform_3ui :: "GLSLProgram \<Rightarrow> GLint \<Rightarrow> string \<Rightarrow> GLuint \<Rightarrow> GLuint \<Rightarrow> GLuint \<Rightarrow> gl_call list" where
  "setUniform_3ui this location_reply name v0 v1 v2 =
     (case getUniformLocation this location_reply name of
        (location, calls) \<Rightarrow> calls @ [glUniform3ui location v0 v1 v2])"

definition setUniform_4ui :: "GLSLProgram \<Rightarrow> GLint \<Rightarrow> string \<Rightarrow> GLuint \<Rightarrow> GLuint \<Rightarrow> GLuint \<Rightarrow> GLuint \<Rightarrow> gl_call list" where
  "setUniform_4ui this location_reply name v0 v1 v2 v3 =
     (case getUniformLocation this location_reply name of
        (location, calls) \<Rightarrow> calls @ [glUniform4ui location v0 v1 v2 v3])"

definition setUniform_vec2 :: "GLSLProgram \<Rightarrow> GLint \<Rightarrow> string \<Rightarrow> vec2 \<Rightarrow> gl_call list" where
  "setUniform_vec2 this location_reply name v =
     (case getUniformLocation this location_reply name of
        (location, calls) \<Rightarrow> calls @ [glUniform2fv location 1 (value_ptr2 v)])"

definition setUniform_vec3 :: "GLSLProgram \<Rightarrow> GLint \<Rightarrow> string \<Rightarrow> vec3 \<Rightarrow> gl_call list" where
  "setUniform_vec3 this location_reply name v =
     (case getUniformLocation this location_reply name of
        (location, calls) \<Rightarrow> calls @ [glUniform3fv location 1 (value_ptr3 v)])"

definition setUniform_vec4 :: "GLSLProgram \<Rightarrow> GLint \<Rightarrow> string \<Rightarrow> vec4 \<Rightarrow> gl_call list" where
  "setUniform_vec4 this location_reply name v =
     (case getUniformLocation this location_reply name of
        (location, calls) \<Rightarrow> calls @ [glUniform4fv location 1 (value_ptr4 v)])"

definition setUniform_ivec2 :: "GLSLProgram \<Rightarrow> GLint \<Rightarrow> string \<Rightarrow> ivec2 \<Rightarrow> gl_call list" where
  "setUniform_ivec2 this location_reply name v =
     (case getUniformLocation this location_reply name of
        (location, calls) \<Rightarrow> calls @ [glUniform2iv location 1 (value_ptr2 v)])"

definition setUniform_ivec3 :: "GLSLProgram \<Rightarrow> GLint \<Rightarrow> string \<Rightarrow> ivec3 \<Rightarrow> gl_call list" where
  "setUniform_ivec3 this location_reply name v =
     (case getUniformLocation this location_reply name of
        (location, calls) \<Rightarrow> calls @ [glUniform3iv location 1 (value_ptr3 v)])"

definition setUniform_ivec4 :: "GLSLProgram \<Rightarrow> GLint \<Rightarrow> string \<Rightarrow> ivec4 \<Rightarrow> gl_call list" where
  "setUniform_ivec4 this location_reply name v =
     (case getUniformLocation this location_reply name of
        (location, calls) \<Rightarrow> calls @ [glUniform4iv location 1 (value_ptr4 v)])"

definition setUniform_mat2 :: "GLSLProgram \<Rightarrow> GLint \<Rightarrow> string \<Rightarrow> mat2 \<Rightarrow> gl_call list" where
  "setUniform_mat2 this location_reply name m =
     (case getUniformLocation this location_reply name of
        (location, calls) \<Rightarrow> calls @ [glUniformMatrix2fv location 1 (ucast GL_FALSE) (value_ptr_mat2 m)])"

definition setUniform_mat3 :: "GLSLProgram \<Rightarrow> GLint \<Rightarrow> string \<Rightarrow> mat3 \<Rightarrow> gl_call list" where
  "setUniform_mat3 this location_reply name m =
     (case getUniformLocation this location_reply name of
        (location, calls) \<Rightarrow> calls @ [glUniformMatrix3fv location 1 (ucast GL_FALSE) (value_ptr_mat3 m)])"

definition setUniform_mat4 :: "GLSLProgram \<Rightarrow> GLint \<Rightarrow> string \<Rightarrow> mat4 \<Rightarrow> gl_call list" where
  "setUniform_mat4 this location_reply name m =
     (case getUniformLocation this location_reply name of
        (location, calls) \<Rightarrow> calls @ [glUniformMatrix4fv location 1 (ucast GL_FALSE) (value_ptr_mat4 m)])"

section \<open>Texture and Texture2DArray\<close>

text \<open>
  \<^verbatim>\<open>struct TextureLayout\<close>; the field \<^verbatim>\<open>type\<close> carries the suffix \<open>_T\<close>. The seven-argument
  constructor leaves both parameter vectors empty.
\<close>

record TextureLayout =
  internal_format :: GLint
  width :: "32 word"
  height :: "32 word"
  depth :: "32 word"
  format :: GLenum
  type_T :: GLenum
  levels :: GLsizei
  int_parameters :: "(GLenum \<times> GLint) list"
  float_parameters :: "(GLenum \<times> GLfloat) list"

definition TextureLayout7 ::
  "GLint \<Rightarrow> 32 word \<Rightarrow> 32 word \<Rightarrow> 32 word \<Rightarrow> GLenum \<Rightarrow> GLenum \<Rightarrow> GLsizei \<Rightarrow> TextureLayout" where
  "TextureLayout7 internal_format' width' height' depth' format' type' levels' =
     \<lparr>internal_format = internal_format', width = width', height = height', depth = depth',
      format = format', type_T = type', levels = levels', int_parameters = [],
      float_parameters = []\<rparr>"

text \<open>The data members of \<^verbatim>\<open>class Texture\<close> followed by those of \<^verbatim>\<open>class Texture2DArray\<close>.\<close>

record Texture2DArray =
  m_id :: string
  m_name :: GLuint
  m_texture_handle :: GLuint64
  m_internal_format :: GLenum
  m_format :: GLenum
  m_type :: GLenum
  m_levels :: GLsizei
  m_width :: "32 word"
  m_height :: "32 word"
  m_layers :: "32 word"

text \<open>
  What the driver answers during construction: the name \<^verbatim>\<open>glGenTextures\<close> leaves in
  \<^verbatim>\<open>m_name\<close>, the handle \<^verbatim>\<open>glGetTextureHandleARB\<close> returns, and the value of
  \<^verbatim>\<open>glGetError\<close>.
\<close>

record tex_reply =
  tex_name_reply :: GLuint
  tex_handle_reply :: GLuint64
  tex_error_reply :: GLenum

text \<open>
  \<^verbatim>\<open>std::max\<close> on \<^verbatim>\<open>unsigned int\<close> and \<^verbatim>\<open>std::min\<close> on \<^verbatim>\<open>GLsizei\<close>, with the comparison
  and the operand each returns on a tie as in the standard library.
\<close>

definition std_max_unsigned :: "32 word \<Rightarrow> 32 word \<Rightarrow> 32 word" where
  "std_max_unsigned a b = (if a < b then b else a)"

definition std_min_GLsizei :: "GLsizei \<Rightarrow> GLsizei \<Rightarrow> GLsizei" where
  "std_min_GLsizei a b = (if b <s a then b else a)"

text \<open>
  \<^verbatim>\<open>std::min(layout.levels, 1 + static_cast<GLsizei>(floor(log2(std::max(m_width, m_height)))))\<close>.
  For an extent \<open>n > 0\<close> the value \<open>1 + \<lfloor>log\<^sub>2 n\<rfloor>\<close> is \<^term>\<open>floorlog 2 n\<close>, taking
  \<^verbatim>\<open>floor(log2(double(n)))\<close> to be the exact integer logarithm on the 32-bit range. For
  the extent 0 the logarithm is minus infinity, whose conversion to \<^verbatim>\<open>GLsizei\<close> is
  undefined: the result is \<open>None\<close>.
\<close>

definition mip_levels :: "GLsizei \<Rightarrow> 32 word \<Rightarrow> 32 word \<Rightarrow> GLsizei option" where
  "mip_levels layout_levels w h =
     (let extent = std_max_unsigned w h
      in if extent = 0 then None
         else Some (std_min_GLsizei layout_levels (of_nat (floorlog 2 (unat extent)))))"

text \<open>
  The constructor of \<^verbatim>\<open>Texture2DArray\<close>: the object, the calls issued and the text written
  to \<^verbatim>\<open>std::cerr\<close>; \<open>None\<close> where the level computation is undefined. \<open>data\<close> is the
  pointer, 0 for \<^verbatim>\<open>nullptr\<close>.
\<close>

definition Texture2DArray_ctor ::
  "tex_reply \<Rightarrow> string \<Rightarrow> TextureLayout \<Rightarrow> pointer \<Rightarrow> bool
     \<Rightarrow> (Texture2DArray \<times> gl_call list \<times> string) option" where
  "Texture2DArray_ctor reply id' layout data generateMipmap =
     (let this = \<lparr>m_id = id', m_name = tex_name_reply reply, m_texture_handle = 0,
                   m_internal_format = internal_format layout, m_format = format layout,
                   m_type = type_T layout, m_levels = levels layout, m_width = width layout,
                   m_height = height layout, m_layers = depth layout\<rparr>
      in case mip_levels (levels layout) (m_width this) (m_height this) of
           None \<Rightarrow> None
         | Some levels' \<Rightarrow>
             (let this = this\<lparr>m_texture_handle := tex_handle_reply reply\<rparr>;
                  err = tex_error_reply reply
              in Some (this,
                   [glGenTextures 1, glBindTexture GL_TEXTURE_2D_ARRAY (m_name this)] @
                   map (\<lambda>pname_pvalue. glTexParameteri GL_TEXTURE_2D_ARRAY (fst pname_pvalue)
                                          (snd pname_pvalue)) (int_parameters layout) @
                   map (\<lambda>pname_pvalue. glTexParameterf GL_TEXTURE_2D_ARRAY (fst pname_pvalue)
                                          (snd pname_pvalue)) (float_parameters layout) @
                   [glTexStorage3D GL_TEXTURE_2D_ARRAY levels' (m_internal_format this)
                      (m_width this) (m_height this) (m_layers this)] @
                   (if data \<noteq> 0
                    then [glTexSubImage3D GL_TEXTURE_2D_ARRAY 0 0 0 0 (m_width this)
                            (m_height this) (m_layers this) (m_format this) (m_type this) data]
                    else []) @
                   (if generateMipmap then [glGenerateMipmap GL_TEXTURE_2D_ARRAY] else []) @
                   [glGetTextureHandleARB (m_name this), glBindTexture GL_TEXTURE_2D_ARRAY 0,
                    glGetError],
                   (if err \<noteq> GL_NO_ERROR
                    then ''GL error during array texture (id: '' @ id' @ '') creation: '' @
                         to_string (unat err) @ endl
                    else []))))"

text \<open>
  The same constructor for a given value \<open>levels'\<close> of its local variable \<^verbatim>\<open>levels\<close>: the
  member initialisers and every statement of the body other than the level computation,
  which is the only statement whose result can be undefined. It gives the object, the
  calls issued and the text written to \<^verbatim>\<open>std::cerr\<close> for every layout.
\<close>

definition Texture2DArray_body ::
  "tex_reply \<Rightarrow> string \<Rightarrow> TextureLayout \<Rightarrow> pointer \<Rightarrow> bool \<Rightarrow> GLsizei
     \<Rightarrow> Texture2DArray \<times> gl_call list \<times> string" where
  "Texture2DArray_body reply id' layout data generateMipmap levels' =
     (let this = \<lparr>m_id = id', m_name = tex_name_reply reply, m_texture_handle = 0,
                   m_internal_format = internal_format layout, m_format = format layout,
                   m_type = type_T layout, m_levels = levels layout, m_width = width layout,
                   m_height = height layout, m_layers = depth layout\<rparr>;
          this = this\<lparr>m_texture_handle := tex_handle_reply reply\<rparr>;
          err = tex_error_reply reply
      in (this,
          [glGenTextures 1, glBindTexture GL_TEXTURE_2D_ARRAY (m_name this)] @
          map (\<lambda>pname_pvalue. glTexParameteri GL_TEXTURE_2D_ARRAY (fst pname_pvalue)
                                 (snd pname_pvalue)) (int_parameters layout) @
          map (\<lambda>pname_pvalue. glTexParameterf GL_TEXTURE_2D_ARRAY (fst pname_pvalue)
                                 (snd pname_pvalue)) (float_parameters layout) @
          [glTexStorage3D GL_TEXTURE_2D_ARRAY levels' (m_internal_format this)
             (m_width this) (m_height this) (m_layers this)] @
          (if data \<noteq> 0
           then [glTexSubImage3D GL_TEXTURE_2D_ARRAY 0 0 0 0 (m_width this)
                   (m_height this) (m_layers this) (m_format this) (m_type this) data]
           else []) @
          (if generateMipmap then [glGenerateMipmap GL_TEXTURE_2D_ARRAY] else []) @
          [glGetTextureHandleARB (m_name this), glBindTexture GL_TEXTURE_2D_ARRAY 0,
           glGetError],
          (if err \<noteq> GL_NO_ERROR
           then ''GL error during array texture (id: '' @ id' @ '') creation: '' @
                to_string (unat err) @ endl
           else [])))"

definition bindTexture :: "Texture2DArray \<Rightarrow> gl_call list" where
  "bindTexture this = [glBindTexture GL_TEXTURE_2D_ARRAY (m_name this)]"

definition updateMipmaps :: "Texture2DArray \<Rightarrow> gl_call list" where
  "updateMipmaps this =
     [glBindTexture GL_TEXTURE_2D_ARRAY (m_name this), glGenerateMipmap GL_TEXTURE_2D_ARRAY,
      glBindTexture GL_TEXTURE_2D_ARRAY 0]"

definition getTextureLayout :: "Texture2DArray \<Rightarrow> TextureLayout" where
  "getTextureLayout this =
     TextureLayout7 (m_internal_format this) (m_width this) (m_height this) (m_layers this)
       (m_format this) (m_type this) (m_levels this)"

section \<open>ShaderStorageBufferObject\<close>

text \<open>
  Modelled from the spec: the class declaration (\<^verbatim>\<open>ShaderStorageBufferObject.hpp\<close>) is not
  among the sources. The three data members the definitions assign are taken to be
  \<^verbatim>\<open>GLuint\<close>, the return type of \<^verbatim>\<open>getSize\<close>, so that a size is stored as it is given. The
  handle carries the suffix \<open>_ssbo\<close>.
\<close>

record ShaderStorageBufferObject =
  m_handle_ssbo :: GLuint
  m_size :: GLuint
  m_written_size :: GLuint

text \<open>
  The constructor; \<open>handle_reply\<close> is the name \<^verbatim>\<open>glGenBuffers\<close> leaves in \<^verbatim>\<open>m_handle\<close>. The
  size is widened from \<^verbatim>\<open>unsigned int\<close> to \<^verbatim>\<open>GLsizeiptr\<close> for \<^verbatim>\<open>glBufferData\<close>.
\<close>

definition ShaderStorageBufferObject_ctor ::
  "GLuint \<Rightarrow> 32 word \<Rightarrow> pointer \<Rightarrow> ShaderStorageBufferObject \<times> gl_call list" where
  "ShaderStorageBufferObject_ctor handle_reply size' data =
     (let this = \<lparr>m_handle_ssbo = 0, m_size = size', m_written_size = 0\<rparr>;
          this = this\<lparr>m_handle_ssbo := handle_reply\<rparr>
      in (this,
          [glGenBuffers 1, glBindBuffer GL_SHADER_STORAGE_BUFFER (m_handle_ssbo this),
           glBufferData GL_SHADER_STORAGE_BUFFER (ucast size') data GL_DYNAMIC_DRAW,
           glBindBuffer GL_SHADER_STORAGE_BUFFER 0]))"

text \<open>
  \<^verbatim>\<open>reload\<close>: the object, the calls issued and the text written to \<^verbatim>\<open>std::cerr\<close>;
  \<open>error_reply\<close> is the value \<^verbatim>\<open>glGetError\<close> returns.
\<close>

definition reload ::
  "ShaderStorageBufferObject \<Rightarrow> GLenum \<Rightarrow> 32 word \<Rightarrow> GLuint \<Rightarrow> pointer
     \<Rightarrow> ShaderStorageBufferObject \<times> gl_call list \<times> string" where
  "reload this error_reply size' index data =
     (let this = this\<lparr>m_size := size'\<rparr>;
          calls = [glBindBuffer GL_SHADER_STORAGE_BUFFER (m_handle_ssbo this),
                   glBufferData GL_SHADER_STORAGE_BUFFER (ucast size') data GL_DYNAMIC_DRAW,
                   glBindBuffer GL_SHADER_STORAGE_BUFFER 0];
          err = error_reply;
          calls = calls @ [glGetError]
      in (this, calls,
          if err \<noteq> GL_NO_ERROR then ''Error - SSBO - reload: '' @ to_string (unat err) @ endl
          else []))"

definition ShaderStorageBufferObject_bind :: "ShaderStorageBufferObject \<Rightarrow> gl_call list" where
  "ShaderStorageBufferObject_bind this =
     [glBindBuffer GL_SHADER_STORAGE_BUFFER (m_handle_ssbo this)]"

definition ShaderStorageBufferObject_bind_index ::
  "ShaderStorageBufferObject \<Rightarrow> GLuint \<Rightarrow> gl_call list" where
  "ShaderStorageBufferObject_bind_index this index =
     [glBindBufferBase GL_SHADER_STORAGE_BUFFER index (m_handle_ssbo this)]"

definition getSize :: "ShaderStorageBufferObject \<Rightarrow> GLuint" where
  "getSize this = m_size this"

text \<open>
  A run of \<^verbatim>\<open>reload\<close> calls on one object, each given as the driver's error answer and the
  three arguments.
\<close>

fun reload_all ::
  "ShaderStorageBufferObject \<Rightarrow> (GLenum \<times> 32 word \<times> GLuint \<times> pointer) list
     \<Rightarrow> ShaderStorageBufferObject" where
  "reload_all this [] = this"
| "reload_all this ((error_reply, size', index, data) # rest) =
     reload_all (fst (reload this error_reply size' index data)) rest"

section \<open>Example inputs\<close>

text \<open>
  A descriptor of two layouts with three attributes, one per accepted shader input class,
  and a descriptor whose only attribute has the shader input type \<^verbatim>\<open>GL_BYTE\<close>.
\<close>

definition example_descriptor :: "VertexLayout list" where
  "example_descriptor =
     [\<lparr>stride = 20, buffer_start_offset = 0, buffer_name = 3,
       attributes =
         [\<lparr>size_A = 3, type_A = GL_FLOAT, normalized = 0, offset = 0,
           shader_input_type = GL_FLOAT\<rparr>,
          \<lparr>size_A = 2, type_A = GL_INT, normalized = 0, offset = 12,
           shader_input_type = GL_INT\<rparr>]\<rparr>,
      \<lparr>stride = 16, buffer_start_offset = 64, buffer_name = 4,
       attributes =
         [\<lparr>size_A = 2, type_A = GL_DOUBLE, normalized = 0, offset = 0,
           shader_input_type = GL_DOUBLE\<rparr>]\<rparr>]"

definition byte_input_descriptor :: "VertexLayout list" where
  "byte_input_descriptor =
     [\<lparr>stride = 4, buffer_start_offset = 0, buffer_name = 3,
       attributes =
         [\<lparr>size_A = 4, type_A = GL_BYTE, normalized = 1, offset = 0,
           shader_input_type = GL_BYTE\<rparr>]\<rparr>]"

text \<open>A 4 by 4 texture array of two layers that asks for ten mipmap levels.\<close>

definition example_texture_layout :: TextureLayout where
  "example_texture_layout =
     \<lparr>internal_format = 0x8058, width = 4, height = 4, depth = 2, format = 0x1908,
      type_T = 0x1401, levels = 10, int_parameters = [(0x2801, 0x2601)],
      float_parameters = []\<rparr>"

text \<open>
  A driver that compiles and links everything, and the answers of a driver for a shader
  that fails to compile with the log text \<open>error\<close>.
\<close>

definition example_program_reply :: program_reply where
  "example_program_reply =
     \<lparr>program_handle = 11,
      shader_replies = (\<lambda>i. \<lparr>shader_handle = 20 + of_nat i, compile_status = 1,
                              shader_log_length = 0, shader_log = []\<rparr>),
      link_status = 1, program_log_length = 0, program_log = []\<rparr>"

definition failing_shader_reply :: shader_reply where
  "failing_shader_reply =
     \<lparr>shader_handle = 20, compile_status = GL_FALSE, shader_log_length = 6,
      shader_log = ''error''\<rparr>"

section \<open>Auxiliary facts on machine words\<close>

lemmas GL_type_defs =
  GL_BYTE_def GL_UNSIGNED_BYTE_def GL_SHORT_def GL_UNSIGNED_SHORT_def GL_INT_def
  GL_UNSIGNED_INT_def GL_FLOAT_def GL_DOUBLE_def GL_HALF_FLOAT_def GL_FIXED_def
  GL_INT_2_10_10_10_REV_def GL_UNSIGNED_INT_2_10_10_10_REV_def
  GL_UNSIGNED_INT_10F_11F_11F_REV_def

lemma unat_scast_nonneg:
  fixes s :: "32 word"
  assumes "0 \<le> sint s"
  shows "unat (scast s :: 64 word) = nat (sint s)"
proof -
  have lt: "sint s < 2 ^ 31"
    using sint_lt [of s] by simp
  have "sint s < 2 ^ 64"
    by (rule less_trans [OF lt]) simp
  then have tb: "take_bit 64 (sint s) = sint s"
    using assms by (simp only: take_bit_int_eq_self)
  have "unat (scast s :: 64 word) = nat (take_bit 64 (sint s))"
    by (subst scast_eq, subst unsigned_of_int) simp
  then show ?thesis
    by (simp only: tb)
qed

lemma unat_mult_scast:
  fixes s :: "32 word" and x :: "64 word"
  assumes "0 \<le> sint s" "unat x \<le> 8"
  shows "unat (x * scast s) = unat x * nat (sint s)"
proof -
  have lt: "sint s < 2 ^ 31"
    using sint_lt [of s] by simp
  then have "nat (sint s) < 2 ^ 31"
    using assms(1) by simp
  moreover have "unat x * nat (sint s) \<le> 8 * nat (sint s)"
    using assms(2) by (rule mult_le_mono1)
  moreover have "nat (sint s) < 2 ^ 31 \<Longrightarrow> 8 * nat (sint s) < 2 ^ 64"
    by simp
  ultimately have "unat x * nat (sint s) < 2 ^ 64"
    by (meson le_less_trans)
  then have "unat x * unat (scast s :: 64 word) < 2 ^ LENGTH(64)"
    by (simp add: unat_scast_nonneg [OF assms(1)])
  then show ?thesis
    by (simp only: unat_mult_lem [THEN iffD1] unat_scast_nonneg [OF assms(1)])
qed

lemma ucast_of_nat_64_32: "(ucast (of_nat n :: 64 word) :: 32 word) = of_nat n"
proof -
  have "(ucast (of_nat n :: 64 word) :: 32 word) = of_nat (take_bit 64 n)"
    by (simp add: unsigned_of_nat)
  also have "\<dots> = of_nat n"
    by (simp add: word_of_nat_eq_iff)
  finally show ?thesis .
qed

section \<open>Byte sizes\<close>

lemma computeByteSize_table:
  "computeByteSize GL_BYTE = 1" "computeByteSize GL_UNSIGNED_BYTE = 1"
  "computeByteSize GL_SHORT = 2" "computeByteSize GL_UNSIGNED_SHORT = 2"
  "computeByteSize GL_HALF_FLOAT = 2"
  "computeByteSize GL_INT = 4" "computeByteSize GL_UNSIGNED_INT = 4"
  "computeByteSize GL_FIXED = 4" "computeByteSize GL_FLOAT = 4"
  "computeByteSize GL_INT_2_10_10_10_REV = 4"
  "computeByteSize GL_UNSIGNED_INT_2_10_10_10_REV = 4"
  "computeByteSize GL_UNSIGNED_INT_10F_11F_11F_REV = 4"
  "computeByteSize GL_DOUBLE = 8"
  by (simp_all add: computeByteSize_def GL_type_defs)

lemma computeByteSize_default:
  "v \<notin> set recognized_types \<Longrightarrow> computeByteSize v = 0"
  by (simp add: computeByteSize_def recognized_types_def)

lemma computeByteSize_le_8: "unat (computeByteSize v) \<le> 8"
  by (simp add: computeByteSize_def)

lemma recognized_types_distinct: "distinct recognized_types" "length recognized_types = 13"
  by (simp_all add: recognized_types_def GL_type_defs)

text \<open>
  Claim C8. \<^verbatim>\<open>computeByteSize\<close> maps each of the thirteen recognized type enumerants to its
  byte size (1 for the two byte types; 2 for the two short types and the half float; 4
  for the two int types, fixed, float and the three packed formats; 8 for double) and
  every other value to 0. \<^verbatim>\<open>computeAttributeByteSize\<close> is that size multiplied by the
  attribute's component count: as a product in \<^verbatim>\<open>std::size_t\<close> for every attribute, as
  a product of numbers without wrap-around when the count is not negative, and 0 when the
  type is not recognized.
\<close>

theorem computeByteSize_spec:
  "computeByteSize GL_BYTE = 1 \<and> computeByteSize GL_UNSIGNED_BYTE = 1 \<and>
   computeByteSize GL_SHORT = 2 \<and> computeByteSize GL_UNSIGNED_SHORT = 2 \<and>
   computeByteSize GL_HALF_FLOAT = 2 \<and>
   computeByteSize GL_INT = 4 \<and> computeByteSize GL_UNSIGNED_INT = 4 \<and>
   computeByteSize GL_FIXED = 4 \<and> computeByteSize GL_FLOAT = 4 \<and>
   computeByteSize GL_INT_2_10_10_10_REV = 4 \<and>
   computeByteSize GL_UNSIGNED_INT_2_10_10_10_REV = 4 \<and>
   computeByteSize GL_UNSIGNED_INT_10F_11F_11F_REV = 4 \<and>
   computeByteSize GL_DOUBLE = 8 \<and>
   distinct recognized_types \<and> length recognized_types = 13 \<and>
   (v \<notin> set recognized_types \<longrightarrow> computeByteSize v = 0) \<and>
   computeAttributeByteSize a = computeByteSize (type_A a) * scast (size_A a) \<and>
   (0 \<le> sint (size_A a) \<longrightarrow>
      unat (computeAttributeByteSize a) =
        unat (computeByteSize (type_A a)) * nat (sint (size_A a))) \<and>
   (type_A a \<notin> set recognized_types \<longrightarrow> computeAttributeByteSize a = 0)"
proof -
  have prod: "computeAttributeByteSize a = computeByteSize (type_A a) * scast (size_A a)"
    by (simp only: computeAttributeByteSize_def)
  have nat_prod: "unat (computeAttributeByteSize a) =
      unat (computeByteSize (type_A a)) * nat (sint (size_A a))" if "0 \<le> sint (size_A a)"
    unfolding prod using that computeByteSize_le_8 by (rule unat_mult_scast)
  have zero: "computeAttributeByteSize a = 0" if "type_A a \<notin> set recognized_types"
    unfolding prod by (simp only: computeByteSize_default [OF that] mult_zero_left)
  show ?thesis
    using computeByteSize_table recognized_types_distinct computeByteSize_default [of v]
      prod nat_prod zero
    by blast
qed

theorem computeByteSize_spec_witness:
  "(0 :: GLenum) \<notin> set recognized_types \<and> computeByteSize 0 = 0 \<and>
   computeAttributeByteSize
     \<lparr>size_A = 3, type_A = 0, normalized = 0, offset = 0, shader_input_type = GL_FLOAT\<rparr> = 0 \<and>
   unat (computeAttributeByteSize
     \<lparr>size_A = 3, type_A = GL_FLOAT, normalized = 0, offset = 0,
      shader_input_type = GL_FLOAT\<rparr>) = 12"
proof -
  have unrecognized: "(0 :: GLenum) \<notin> set recognized_types"
    by (simp add: recognized_types_def GL_type_defs)
  have count: "0 \<le> sint (3 :: GLint)"
    by simp
  show ?thesis
    using unrecognized count
      computeByteSize_spec [of 0
        "\<lparr>size_A = 3, type_A = 0, normalized = 0, offset = 0, shader_input_type = GL_FLOAT\<rparr>"]
      computeByteSize_spec [of 0
        "\<lparr>size_A = 3, type_A = GL_FLOAT, normalized = 0, offset = 0,
          shader_input_type = GL_FLOAT\<rparr>"]
    by simp
qed

section \<open>Equality of vertex layouts\<close>

lemma all_upward_split:
  assumes "i < (n::nat)"
  shows "(\<forall>j. i \<le> j \<and> j < n \<longrightarrow> P j) \<longleftrightarrow> P i \<and> (\<forall>j. Suc i \<le> j \<and> j < n \<longrightarrow> P j)"
proof
  assume all: "\<forall>j. i \<le> j \<and> j < n \<longrightarrow> P j"
  have "P i"
    using all assms by simp
  moreover have "P j" if "Suc i \<le> j \<and> j < n" for j
    using all that by simp
  ultimately show "P i \<and> (\<forall>j. Suc i \<le> j \<and> j < n \<longrightarrow> P j)"
    by simp
next
  assume split: "P i \<and> (\<forall>j. Suc i \<le> j \<and> j < n \<longrightarrow> P j)"
  show "\<forall>j. i \<le> j \<and> j < n \<longrightarrow> P j"
  proof (intro allI impI)
    fix j
    assume range: "i \<le> j \<and> j < n"
    show "P j"
    proof (cases "j = i")
      case True
      with split show ?thesis by simp
    next
      case False
      with range have "Suc i \<le> j \<and> j < n" by simp
      with split show ?thesis by simp
    qed
  qed
qed

lemma VertexLayout_eq_loop_iff:
  "VertexLayout_eq_loop la ra i rtn \<longleftrightarrow>
     rtn \<and> (\<forall>j. i \<le> j \<and> j < length la \<longrightarrow> Attribute_eq (la ! j) (ra ! j))"
proof (induction la ra i rtn rule: VertexLayout_eq_loop.induct)
  case (1 la ra i rtn)
  show ?case
  proof (cases "i < length la")
    case True
    have "VertexLayout_eq_loop la ra i rtn =
          VertexLayout_eq_loop la ra (Suc i) (rtn \<and> Attribute_eq (la ! i) (ra ! i))"
      using True by (subst VertexLayout_eq_loop.simps) simp
    also have "\<dots> \<longleftrightarrow> (rtn \<and> Attribute_eq (la ! i) (ra ! i)) \<and>
          (\<forall>j. Suc i \<le> j \<and> j < length la \<longrightarrow> Attribute_eq (la ! j) (ra ! j))"
      using 1 [OF True] .
    also have "\<dots> \<longleftrightarrow> rtn \<and> (\<forall>j. i \<le> j \<and> j < length la \<longrightarrow> Attribute_eq (la ! j) (ra ! j))"
      by (simp only: all_upward_split [OF True, of "\<lambda>j. Attribute_eq (la ! j) (ra ! j)"] conj_assoc)
    finally show ?thesis .
  next
    case False
    have "VertexLayout_eq_loop la ra i rtn = rtn"
      using False by (subst VertexLayout_eq_loop.simps) simp
    moreover have "\<forall>j. i \<le> j \<and> j < length la \<longrightarrow> Attribute_eq (la ! j) (ra ! j)"
      using False by auto
    ultimately show ?thesis
      by simp
  qed
qed

lemma VertexLayout_eq_iff:
  "VertexLayout_eq lhs rhs \<longleftrightarrow>
      stride lhs = stride rhs \<and>
      length (attributes lhs) = length (attributes rhs) \<and>
      (\<forall>i < length (attributes lhs). Attribute_eq (attributes lhs ! i) (attributes rhs ! i))"
  by (simp add: VertexLayout_eq_def VertexLayout_eq_loop_iff)

text \<open>
  Claim C9. \<^verbatim>\<open>operator==\<close> on two vertex layouts is true exactly when the strides are
  equal, the attribute vectors have the same length and the attributes at each position
  agree on size, type, normalized, offset and shader input type. The buffer name and the
  buffer start offset have no influence: replacing them on either side leaves the result
  as it is.
\<close>

theorem VertexLayout_eq_spec:
  "(VertexLayout_eq lhs rhs \<longleftrightarrow>
      stride lhs = stride rhs \<and>
      length (attributes lhs) = length (attributes rhs) \<and>
      (\<forall>i < length (attributes lhs).
         size_A (attributes lhs ! i) = size_A (attributes rhs ! i) \<and>
         type_A (attributes lhs ! i) = type_A (attributes rhs ! i) \<and>
         normalized (attributes lhs ! i) = normalized (attributes rhs ! i) \<and>
         offset (attributes lhs ! i) = offset (attributes rhs ! i) \<and>
         shader_input_type (attributes lhs ! i) = shader_input_type (attributes rhs ! i))) \<and>
   VertexLayout_eq (lhs\<lparr>buffer_name := name1, buffer_start_offset := start1\<rparr>)
                   (rhs\<lparr>buffer_name := name2, buffer_start_offset := start2\<rparr>) =
     VertexLayout_eq lhs rhs"
proof
  show "VertexLayout_eq lhs rhs \<longleftrightarrow>
      stride lhs = stride rhs \<and>
      length (attributes lhs) = length (attributes rhs) \<and>
      (\<forall>i < length (attributes lhs).
         size_A (attributes lhs ! i) = size_A (attributes rhs ! i) \<and>
         type_A (attributes lhs ! i) = type_A (attributes rhs ! i) \<and>
         normalized (attributes lhs ! i) = normalized (attributes rhs ! i) \<and>
         offset (attributes lhs ! i) = offset (attributes rhs ! i) \<and>
         shader_input_type (attributes lhs ! i) = shader_input_type (attributes rhs ! i))"
    by (simp only: VertexLayout_eq_iff Attribute_eq_def) blast
  show "VertexLayout_eq (lhs\<lparr>buffer_name := name1, buffer_start_offset := start1\<rparr>)
                        (rhs\<lparr>buffer_name := name2, buffer_start_offset := start2\<rparr>) =
        VertexLayout_eq lhs rhs"
    by (simp add: VertexLayout_eq_def)
qed

theorem VertexLayout_eq_spec_witness:
  "VertexLayout_eq
     \<lparr>stride = 12, buffer_start_offset = 0, buffer_name = 1,
      attributes = [\<lparr>size_A = 3, type_A = GL_FLOAT, normalized = 0, offset = 0,
                     shader_input_type = GL_FLOAT\<rparr>]\<rparr>
     \<lparr>stride = 12, buffer_start_offset = 64, buffer_name = 2,
      attributes = [\<lparr>size_A = 3, type_A = GL_FLOAT, normalized = 0, offset = 0,
                     shader_input_type = GL_FLOAT\<rparr>]\<rparr> \<and>
   \<not> VertexLayout_eq
     \<lparr>stride = 12, buffer_start_offset = 0, buffer_name = 1,
      attributes = [\<lparr>size_A = 3, type_A = GL_FLOAT, normalized = 0, offset = 0,
                     shader_input_type = GL_FLOAT\<rparr>]\<rparr>
     \<lparr>stride = 12, buffer_start_offset = 0, buffer_name = 1,
      attributes = [\<lparr>size_A = 3, type_A = GL_FLOAT, normalized = 0, offset = 0,
                     shader_input_type = GL_INT\<rparr>]\<rparr>"
  using
    VertexLayout_eq_spec [of
      "\<lparr>stride = 12, buffer_start_offset = 0, buffer_name = 1,
        attributes = [\<lparr>size_A = 3, type_A = GL_FLOAT, normalized = 0, offset = 0,
                       shader_input_type = GL_FLOAT\<rparr>]\<rparr>"
      "\<lparr>stride = 12, buffer_start_offset = 64, buffer_name = 2,
        attributes = [\<lparr>size_A = 3, type_A = GL_FLOAT, normalized = 0, offset = 0,
                       shader_input_type = GL_FLOAT\<rparr>]\<rparr>"]
    VertexLayout_eq_spec [of
      "\<lparr>stride = 12, buffer_start_offset = 0, buffer_name = 1,
        attributes = [\<lparr>size_A = 3, type_A = GL_FLOAT, normalized = 0, offset = 0,
                       shader_input_type = GL_FLOAT\<rparr>]\<rparr>"
      "\<lparr>stride = 12, buffer_start_offset = 0, buffer_name = 1,
        attributes = [\<lparr>size_A = 3, type_A = GL_FLOAT, normalized = 0, offset = 0,
                       shader_input_type = GL_INT\<rparr>]\<rparr>"]
  by (simp add: GL_type_defs)

section \<open>The size stored by a buffer object\<close>

lemma reload_size: "m_size (fst (reload this error_reply size' index data)) = size'"
  by (simp add: reload_def Let_def)

lemma reload_all_snoc:
  "reload_all this (rs @ [(error_reply, size', index, data)]) =
     fst (reload (reload_all this rs) error_reply size' index data)"
  by (induction this rs rule: reload_all.induct) simp_all

lemma reload_all_size:
  "rs \<noteq> [] \<Longrightarrow> m_size (reload_all this rs) = fst (snd (last rs))"
proof (induction rs arbitrary: this rule: rev_induct)
  case Nil
  then show ?case by simp
next
  case (snoc r rs)
  obtain error_reply size' index data where r: "r = (error_reply, size', index, data)"
    by (cases r) auto
  show ?case
    unfolding r by (simp only: reload_all_snoc reload_size last_snoc fst_conv snd_conv)
qed

text \<open>
  Claim C10. \<^verbatim>\<open>getSize\<close> returns the size argument of the most recent \<^verbatim>\<open>reload\<close>, or of
  the constructor when \<^verbatim>\<open>reload\<close> was never called, whatever error code the driver
  reported in any of the reloads: the size is stored before the native calls and the
  error check, and is not restored afterwards.
\<close>

theorem getSize_most_recent:
  "getSize (fst (reload this error_reply size' index data)) = size' \<and>
   getSize (reload_all (fst (ShaderStorageBufferObject_ctor handle_reply size0 data0)) rs) =
     (if rs = [] then size0 else fst (snd (last rs)))"
proof
  show "getSize (fst (reload this error_reply size' index data)) = size'"
    by (simp only: getSize_def reload_size)
  have ctor: "m_size (fst (ShaderStorageBufferObject_ctor handle_reply size0 data0)) = size0"
    by (simp add: ShaderStorageBufferObject_ctor_def Let_def)
  show "getSize (reload_all (fst (ShaderStorageBufferObject_ctor handle_reply size0 data0)) rs) =
     (if rs = [] then size0 else fst (snd (last rs)))"
  proof (cases "rs = []")
    case True
    then show ?thesis by (simp add: getSize_def ctor)
  next
    case False
    then show ?thesis by (simp add: getSize_def reload_all_size)
  qed
qed

theorem getSize_most_recent_witness:
  "getSize (reload_all (fst (ShaderStorageBufferObject_ctor 1 16 0))
              [(0, 32, 0, 0), (1281, 64, 0, 0)]) = 64 \<and>
   snd (snd (reload (fst (ShaderStorageBufferObject_ctor 1 16 0)) 1281 64 0 0)) \<noteq> [] \<and>
   getSize (fst (reload (fst (ShaderStorageBufferObject_ctor 1 16 0)) 1281 64 0 0)) = 64"
  using getSize_most_recent [of "fst (ShaderStorageBufferObject_ctor 1 16 0)" 1281 64 0 0 1 16 0
      "[(0, 32, 0, 0), (1281, 64, 0, 0)]"]
  by (simp add: reload_def Let_def GL_NO_ERROR_def)

section \<open>Construction of a vertex array object\<close>

lemma concat_map_upt_Suc:
  "concat (map f [0..<Suc n]) = f 0 @ concat (map (\<lambda>i. f (Suc i)) [0..<n])"
  by (simp only: map_upt_Suc concat.simps)

lemma attribute_loop_step:
  assumes "valid_input_type (shader_input_type a)"
  shows "attribute_loop h b (a # as) g =
     (case attribute_loop h b as (g + 1) of
        (r, calls) \<Rightarrow>
          (r, glEnableVertexArrayAttrib h g # expected_format_call h g a #
              glVertexArrayAttribBinding h g b # calls))"
  using assms
  by (auto simp add: valid_input_type_def expected_format_call_def Let_def GL_type_defs)

lemma attribute_loop_throw:
  assumes "\<not> valid_input_type (shader_input_type a)"
  shows "attribute_loop h b (a # as) g =
     (Inl (MeshException invalid_input_type_msg), [glEnableVertexArrayAttrib h g])"
  using assms by (simp add: valid_input_type_def Let_def)

lemma attribute_loop_valid:
  assumes "list_all (\<lambda>a. valid_input_type (shader_input_type a)) as"
  shows "attribute_loop h (of_nat j) as (of_nat k) =
     (Inr (of_nat (k + length as)),
      concat (map (\<lambda>i. expected_attribute_calls h j (k + i) (as ! i)) [0..<length as]))"
  using assms
proof (induction as arbitrary: k)
  case Nil
  then show ?case by simp
next
  case (Cons a as)
  from Cons.prems have va: "valid_input_type (shader_input_type a)"
    and vas: "list_all (\<lambda>a. valid_input_type (shader_input_type a)) as"
    by simp_all
  have next_idx: "(of_nat k :: 32 word) + 1 = of_nat (Suc k)"
    by simp
  show ?case
    by (simp only: attribute_loop_step [OF va] next_idx Cons.IH [OF vas] prod.case
        length_Cons concat_map_upt_Suc nth_Cons_0 nth_Cons_Suc add_Suc_right add_Suc
        add_0_right append_Cons append_Nil expected_attribute_calls_def)
qed

lemma attribute_loop_invalid:
  assumes "\<not> list_all (\<lambda>a. valid_input_type (shader_input_type a)) as"
  shows "fst (attribute_loop h b as g) = Inl (MeshException invalid_input_type_msg)"
  using assms
proof (induction as arbitrary: g)
  case Nil
  then show ?case by simp
next
  case (Cons a as)
  show ?case
  proof (cases "valid_input_type (shader_input_type a)")
    case True
    with Cons.prems have "\<not> list_all (\<lambda>a. valid_input_type (shader_input_type a)) as"
      by simp
    from Cons.IH [OF this, of "g + 1"] obtain calls where
      "attribute_loop h b as (g + 1) = (Inl (MeshException invalid_input_type_msg), calls)"
      by (cases "attribute_loop h b as (g + 1)") simp
    then show ?thesis
      by (simp only: attribute_loop_step [OF True] prod.case fst_conv)
  next
    case False
    show ?thesis
      by (simp only: attribute_loop_throw [OF False] fst_conv)
  qed
qed


lemma valid_descriptor_Cons:
  "valid_descriptor (d # ds) \<longleftrightarrow>
     list_all (\<lambda>a. valid_input_type (shader_input_type a)) (attributes d) \<and> valid_descriptor ds"
  by (simp add: valid_descriptor_def)

lemma attrib_base_0: "attrib_base ds 0 = 0"
  by (simp add: attrib_base_def)

lemma attrib_base_Suc:
  "attrib_base (d # ds) (Suc i) = length (attributes d) + attrib_base ds i"
  by (simp add: attrib_base_def)

lemma layout_loop_valid:
  assumes "valid_descriptor ds"
  shows "layout_loop h ds (of_nat j) (of_nat k) =
     (Inr (),
      concat (map (\<lambda>i. expected_layout_calls h (j + i) (k + attrib_base ds i) (ds ! i))
                [0..<length ds]))"
  using assms
proof (induction ds arbitrary: j k)
  case Nil
  then show ?case by simp
next
  case (Cons d ds)
  from Cons.prems have vd: "list_all (\<lambda>a. valid_input_type (shader_input_type a)) (attributes d)"
    and vds: "valid_descriptor ds"
    by (simp_all only: valid_descriptor_Cons)
  have next_idx: "(of_nat j :: 64 word) + 1 = of_nat (Suc j)"
    by simp
  have head: "expected_layout_calls h j k d =
      glVertexArrayVertexBuffer h (of_nat j) (buffer_name d) (buffer_start_offset d) (stride d) #
      concat (map (\<lambda>i. expected_attribute_calls h j (k + i) (attributes d ! i))
                [0..<length (attributes d)])"
    by (simp only: expected_layout_calls_def)
  show ?case
    by (simp only: layout_loop.simps Let_def ucast_of_nat_64_32 attribute_loop_valid [OF vd]
        prod.case sum.case next_idx Cons.IH [OF vds] length_Cons concat_map_upt_Suc
        nth_Cons_0 nth_Cons_Suc attrib_base_0 attrib_base_Suc add_0_right add_Suc_right
        add_Suc head append_Cons add.assoc)
qed

lemma layout_loop_invalid:
  assumes "\<not> valid_descriptor ds"
  shows "fst (layout_loop h ds j g) = Inl (MeshException invalid_input_type_msg)"
  using assms
proof (induction ds arbitrary: j g)
  case Nil
  then show ?case by (simp add: valid_descriptor_def)
next
  case (Cons d ds)
  show ?case
  proof (cases "list_all (\<lambda>a. valid_input_type (shader_input_type a)) (attributes d)")
    case True
    with Cons.prems have "\<not> valid_descriptor ds"
      by (simp only: valid_descriptor_Cons simp_thms)
    note ih = Cons.IH [OF this]
    obtain g' calls where al: "attribute_loop h (ucast j) (attributes d) g = (Inr g', calls)"
      using attribute_loop_valid [OF True, of h "unat (ucast j :: 32 word)" "unat g"]
      by simp
    obtain calls' where
      "layout_loop h ds (j + 1) g' = (Inl (MeshException invalid_input_type_msg), calls')"
      using ih [of "j + 1" g'] by (cases "layout_loop h ds (j + 1) g'") simp
    then show ?thesis
      by (simp only: layout_loop.simps Let_def al prod.case sum.case fst_conv)
  next
    case False
    from attribute_loop_invalid [OF this, of h "ucast j" g] obtain calls where
      "attribute_loop h (ucast j) (attributes d) g =
         (Inl (MeshException invalid_input_type_msg), calls)"
      by (cases "attribute_loop h (ucast j) (attributes d) g") simp
    then show ?thesis
      by (simp only: layout_loop.simps Let_def prod.case sum.case fst_conv)
  qed
qed


lemma valid_descriptor_iff:
  "valid_descriptor vd \<longleftrightarrow>
     (\<forall>descr \<in> set vd. \<forall>a \<in> set (attributes descr).
        shader_input_type a \<in> {GL_FLOAT, GL_INT, GL_UNSIGNED_INT, GL_DOUBLE})"
  by (simp add: valid_descriptor_def list_all_iff valid_input_type_def)

lemma createVertexArray_valid:
  assumes "valid_descriptor (m_vertex_descriptor this)"
  shows "createVertexArray h this =
     (Inr (this\<lparr>m_va_handle := h\<rparr>),
      expected_calls h (m_vertex_descriptor this) (m_index_buffer_name this))"
proof -
  have loop: "layout_loop h (m_vertex_descriptor this) 0 0 =
     (Inr (),
      concat (map (\<lambda>j. expected_layout_calls h j (attrib_base (m_vertex_descriptor this) j)
                          (m_vertex_descriptor this ! j))
                [0..<length (m_vertex_descriptor this)]))"
    using layout_loop_valid [OF assms, of h 0 0] by simp
  show ?thesis
    by (simp add: createVertexArray_def Let_def loop expected_calls_def)
qed

lemma createVertexArray_invalid:
  assumes "\<not> valid_descriptor (m_vertex_descriptor this)"
  shows "fst (createVertexArray h this) = Inl (MeshException invalid_input_type_msg)"
proof -
  obtain calls where
    "layout_loop h (m_vertex_descriptor this) 0 0 =
       (Inl (MeshException invalid_input_type_msg), calls)"
    using layout_loop_invalid [OF assms, of h 0 0]
    by (cases "layout_loop h (m_vertex_descriptor this) 0 0") simp
  then show ?thesis
    by (simp add: createVertexArray_def Let_def)
qed

lemma checkError_msg_neq:
  "MeshException (''Mesh::Mesh - OpenGL error '' @ s) \<noteq> MeshException invalid_input_type_msg"
  by (simp add: invalid_input_type_msg_def)

lemma VertexArrayObject_ctor_valid:
  assumes "valid_descriptor vd"
  shows "VertexArrayObject_ctor reply vd cnt ibn idt pt =
     (if va_error_reply reply \<noteq> GL_NO_ERROR
      then Inl (MeshException
                  (''Mesh::Mesh - OpenGL error '' @ to_string (unat (va_error_reply reply))))
      else Inr \<lparr>m_va_handle = va_handle_reply reply, m_vertex_descriptor = vd,
                m_primitive_type = pt, m_draw_items_count = cnt, m_index_type = idt,
                m_index_buffer_name = ibn\<rparr>,
      expected_calls (va_handle_reply reply) vd ibn @ [glGetError])"
  using assms
  by (simp add: VertexArrayObject_ctor_def Let_def createVertexArray_valid checkError_def)

lemma VertexArrayObject_ctor_invalid:
  assumes "\<not> valid_descriptor vd"
  shows "fst (VertexArrayObject_ctor reply vd cnt ibn idt pt) =
     Inl (MeshException invalid_input_type_msg)"
proof -
  let ?obj = "\<lparr>m_va_handle = 0, m_vertex_descriptor = vd, m_primitive_type = pt,
                m_draw_items_count = cnt, m_index_type = idt, m_index_buffer_name = ibn\<rparr>"
  have "\<not> valid_descriptor (m_vertex_descriptor ?obj)"
    using assms by simp
  from createVertexArray_invalid [OF this, of "va_handle_reply reply"] obtain calls where
    "createVertexArray (va_handle_reply reply) ?obj =
       (Inl (MeshException invalid_input_type_msg), calls)"
    by (cases "createVertexArray (va_handle_reply reply) ?obj") simp
  then show ?thesis
    by (simp add: VertexArrayObject_ctor_def Let_def)
qed

text \<open>
  Claim C3. Construction of a vertex array object ends with the \<^verbatim>\<open>MeshException\<close> that
  names the invalid vertex shader input type exactly when some attribute of the descriptor
  has a shader input type other than \<^verbatim>\<open>GL_FLOAT\<close>, \<^verbatim>\<open>GL_INT\<close>, \<^verbatim>\<open>GL_UNSIGNED_INT\<close> and
  \<^verbatim>\<open>GL_DOUBLE\<close>; for a descriptor whose attributes all have one of the four types that
  exception is not raised.
\<close>

theorem invalid_input_type_exception:
  "(fst (VertexArrayObject_ctor reply vd cnt ibn idt pt) =
      Inl (MeshException invalid_input_type_msg)) \<longleftrightarrow>
   (\<exists>descr \<in> set vd. \<exists>a \<in> set (attributes descr).
      shader_input_type a \<notin> {GL_FLOAT, GL_INT, GL_UNSIGNED_INT, GL_DOUBLE})"
proof (cases "valid_descriptor vd")
  case True
  have "fst (VertexArrayObject_ctor reply vd cnt ibn idt pt) \<noteq>
      Inl (MeshException invalid_input_type_msg)"
    by (simp add: VertexArrayObject_ctor_valid [OF True] invalid_input_type_msg_def)
  with True show ?thesis
    by (simp only: valid_descriptor_iff) blast
next
  case False
  have "fst (VertexArrayObject_ctor reply vd cnt ibn idt pt) =
      Inl (MeshException invalid_input_type_msg)"
    by (rule VertexArrayObject_ctor_invalid [OF False])
  with False show ?thesis
    by (simp only: valid_descriptor_iff) blast
qed


theorem invalid_input_type_exception_witness:
  "fst (VertexArrayObject_ctor \<lparr>va_handle_reply = 7, va_error_reply = 0\<rparr> byte_input_descriptor
          3 5 GL_UNSIGNED_INT GL_TRIANGLES) = Inl (MeshException invalid_input_type_msg) \<and>
   fst (VertexArrayObject_ctor \<lparr>va_handle_reply = 7, va_error_reply = 0\<rparr> example_descriptor
          3 5 GL_UNSIGNED_INT GL_TRIANGLES) \<noteq> Inl (MeshException invalid_input_type_msg)"
  using
    invalid_input_type_exception [of "\<lparr>va_handle_reply = 7, va_error_reply = 0\<rparr>"
      byte_input_descriptor 3 5 GL_UNSIGNED_INT GL_TRIANGLES]
    invalid_input_type_exception [of "\<lparr>va_handle_reply = 7, va_error_reply = 0\<rparr>"
      example_descriptor 3 5 GL_UNSIGNED_INT GL_TRIANGLES]
  by (simp add: byte_input_descriptor_def example_descriptor_def GL_type_defs)

text \<open>
  Claim C1, amended. For every descriptor whose attributes all have one of the four
  accepted shader input types, \<^verbatim>\<open>createVertexArray\<close> issues exactly the sequence the
  descriptor stands for: the create call; for each layout \<open>j\<close> in input order the buffer
  bind at binding index \<open>j\<close> with the layout's buffer name, start offset and stride, then
  for each of its attributes the enable call, the format call picked by the shader input
  type and the binding call to \<open>j\<close>, with attribute indices counting up from 0 across
  all layouts; last the element-buffer bind exactly when the index buffer name is not 0.
  The constructor issues this sequence followed by the error query.
\<close>

theorem createVertexArray_calls:
  assumes "valid_descriptor vd"
  shows "snd (createVertexArray h
                \<lparr>m_va_handle = 0, m_vertex_descriptor = vd, m_primitive_type = pt,
                 m_draw_items_count = cnt, m_index_type = idt, m_index_buffer_name = ibn\<rparr>) =
           expected_calls h vd ibn \<and>
         snd (VertexArrayObject_ctor reply vd cnt ibn idt pt) =
           expected_calls (va_handle_reply reply) vd ibn @ [glGetError]"
  using assms by (simp add: createVertexArray_valid VertexArrayObject_ctor_valid)

lemma example_descriptor_valid: "valid_descriptor example_descriptor"
  by (simp add: valid_descriptor_def valid_input_type_def example_descriptor_def)

lemma example_expected_calls:
  "expected_calls 7 example_descriptor 5 =
     [glCreateVertexArrays 1,
      glVertexArrayVertexBuffer 7 0 3 0 20,
      glEnableVertexArrayAttrib 7 0,
      glVertexArrayAttribFormat 7 0 3 GL_FLOAT 0 0,
      glVertexArrayAttribBinding 7 0 0,
      glEnableVertexArrayAttrib 7 1,
      glVertexArrayAttribIFormat 7 1 2 GL_INT 12,
      glVertexArrayAttribBinding 7 1 0,
      glVertexArrayVertexBuffer 7 1 4 64 16,
      glEnableVertexArrayAttrib 7 2,
      glVertexArrayAttribLFormat 7 2 2 GL_DOUBLE 0,
      glVertexArrayAttribBinding 7 2 1,
      glVertexArrayElementBuffer 7 5]"
  by (simp add: expected_calls_def expected_layout_calls_def expected_attribute_calls_def
      expected_format_call_def attrib_base_def example_descriptor_def GL_type_defs
      upt_conv_Cons)


theorem createVertexArray_calls_witness:
  "valid_descriptor example_descriptor \<and>
   snd (VertexArrayObject_ctor \<lparr>va_handle_reply = 7, va_error_reply = 0\<rparr> example_descriptor
          3 5 GL_UNSIGNED_INT GL_TRIANGLES) =
     [glCreateVertexArrays 1,
      glVertexArrayVertexBuffer 7 0 3 0 20,
      glEnableVertexArrayAttrib 7 0,
      glVertexArrayAttribFormat 7 0 3 GL_FLOAT 0 0,
      glVertexArrayAttribBinding 7 0 0,
      glEnableVertexArrayAttrib 7 1,
      glVertexArrayAttribIFormat 7 1 2 GL_INT 12,
      glVertexArrayAttribBinding 7 1 0,
      glVertexArrayVertexBuffer 7 1 4 64 16,
      glEnableVertexArrayAttrib 7 2,
      glVertexArrayAttribLFormat 7 2 2 GL_DOUBLE 0,
      glVertexArrayAttribBinding 7 2 1,
      glVertexArrayElementBuffer 7 5,
      glGetError]"
  using example_descriptor_valid
    createVertexArray_calls [OF example_descriptor_valid, of 7 GL_TRIANGLES 3 GL_UNSIGNED_INT 5
      "\<lparr>va_handle_reply = 7, va_error_reply = 0\<rparr>"]
  by (simp add: example_expected_calls)

lemma byte_input_ctor:
  "VertexArrayObject_ctor \<lparr>va_handle_reply = 7, va_error_reply = err\<rparr> byte_input_descriptor
      3 5 GL_UNSIGNED_INT GL_TRIANGLES =
     (Inl (MeshException invalid_input_type_msg),
      [glCreateVertexArrays 1, glVertexArrayVertexBuffer 7 0 3 0 4,
       glEnableVertexArrayAttrib 7 0])"
  by (simp add: VertexArrayObject_ctor_def createVertexArray_def Let_def
      byte_input_descriptor_def GL_type_defs)

lemma call_neq:
  "glVertexArrayElementBuffer a b \<noteq> glCreateVertexArrays c"
  "glVertexArrayElementBuffer a b \<noteq> glVertexArrayVertexBuffer d e f g h"
  "glVertexArrayElementBuffer a b \<noteq> glEnableVertexArrayAttrib i j"
  "glGetError \<noteq> glCreateVertexArrays c"
  "glGetError \<noteq> glVertexArrayVertexBuffer d e f g h"
  "glGetError \<noteq> glEnableVertexArrayAttrib i j"
  by (simp_all add: glVertexArrayElementBuffer_def glCreateVertexArrays_def
      glVertexArrayVertexBuffer_def glEnableVertexArrayAttrib_def glGetError_def)

text \<open>
  Claim C1 as stated, for every descriptor, fails: with an attribute of shader input type
  \<^verbatim>\<open>GL_BYTE\<close> and the index buffer 5, construction stops after the enable call of that
  attribute. No format call, no binding call and no element-buffer bind is issued.
\<close>

theorem createVertexArray_counterexample:
  "snd (VertexArrayObject_ctor \<lparr>va_handle_reply = 7, va_error_reply = 0\<rparr>
          byte_input_descriptor 3 5 GL_UNSIGNED_INT GL_TRIANGLES) =
     [glCreateVertexArrays 1, glVertexArrayVertexBuffer 7 0 3 0 4,
      glEnableVertexArrayAttrib 7 0] \<and>
   (5 :: GLuint) \<noteq> 0 \<and>
   glVertexArrayElementBuffer 7 5 \<notin>
     set (snd (VertexArrayObject_ctor \<lparr>va_handle_reply = 7, va_error_reply = 0\<rparr>
                 byte_input_descriptor 3 5 GL_UNSIGNED_INT GL_TRIANGLES)) \<and>
   length (snd (VertexArrayObject_ctor \<lparr>va_handle_reply = 7, va_error_reply = 0\<rparr>
                  byte_input_descriptor 3 5 GL_UNSIGNED_INT GL_TRIANGLES)) \<noteq>
     length (expected_calls 7 byte_input_descriptor 5)"
proof -
  have expected: "length (expected_calls 7 byte_input_descriptor 5) = 6"
    by (simp add: expected_calls_def expected_layout_calls_def expected_attribute_calls_def
        byte_input_descriptor_def)
  show ?thesis
    unfolding byte_input_ctor snd_conv expected
    by (simp add: call_neq)
qed

section \<open>Construction of a texture array and the error checks\<close>

lemma Texture2DArray_ctor_Some:
  assumes "mip_levels (levels layout) (width layout) (height layout) = Some lv"
  shows "Texture2DArray_ctor reply id' layout data generateMipmap =
     Some (\<lparr>m_id = id', m_name = tex_name_reply reply,
            m_texture_handle = tex_handle_reply reply,
            m_internal_format = internal_format layout, m_format = format layout,
            m_type = type_T layout, m_levels = levels layout, m_width = width layout,
            m_height = height layout, m_layers = depth layout\<rparr>,
           [glGenTextures 1, glBindTexture GL_TEXTURE_2D_ARRAY (tex_name_reply reply)] @
           map (\<lambda>p. glTexParameteri GL_TEXTURE_2D_ARRAY (fst p) (snd p)) (int_parameters layout) @
           map (\<lambda>p. glTexParameterf GL_TEXTURE_2D_ARRAY (fst p) (snd p))
             (float_parameters layout) @
           [glTexStorage3D GL_TEXTURE_2D_ARRAY lv (internal_format layout) (width layout)
              (height layout) (depth layout)] @
           (if data \<noteq> 0
            then [glTexSubImage3D GL_TEXTURE_2D_ARRAY 0 0 0 0 (width layout) (height layout)
                    (depth layout) (format layout) (type_T layout) data]
            else []) @
           (if generateMipmap then [glGenerateMipmap GL_TEXTURE_2D_ARRAY] else []) @
           [glGetTextureHandleARB (tex_name_reply reply), glBindTexture GL_TEXTURE_2D_ARRAY 0,
            glGetError],
           if tex_error_reply reply \<noteq> GL_NO_ERROR
           then ''GL error during array texture (id: '' @ id' @ '') creation: '' @
                to_string (unat (tex_error_reply reply)) @ endl
           else [])"
  using assms by (simp add: Texture2DArray_ctor_def Let_def)

lemma Texture2DArray_ctor_None:
  "Texture2DArray_ctor reply id' layout data generateMipmap = None \<longleftrightarrow>
     mip_levels (levels layout) (width layout) (height layout) = None"
  by (simp add: Texture2DArray_ctor_def Let_def split: option.split)

lemma mip_levels_Some:
  "mip_levels layout_levels w h = Some lv \<longleftrightarrow>
     std_max_unsigned w h \<noteq> 0 \<and>
     lv = std_min_GLsizei layout_levels (of_nat (floorlog 2 (unat (std_max_unsigned w h))))"
  by (auto simp add: mip_levels_def Let_def)

lemma Texture2DArray_ctor_body:
  "Texture2DArray_ctor reply id' layout data generateMipmap =
     map_option (Texture2DArray_body reply id' layout data generateMipmap)
       (mip_levels (levels layout) (width layout) (height layout))"
  by (simp add: Texture2DArray_ctor_def Texture2DArray_body_def Let_def split: option.split)

lemma Texture2DArray_ctor_returns:
  assumes "std_max_unsigned (width layout) (height layout) \<noteq> 0"
  shows "Texture2DArray_ctor reply id' layout data generateMipmap =
     Some (Texture2DArray_body reply id' layout data generateMipmap
             (std_min_GLsizei (levels layout)
                (of_nat (floorlog 2 (unat (std_max_unsigned (width layout) (height layout)))))))"
proof -
  have "mip_levels (levels layout) (width layout) (height layout) =
      Some (std_min_GLsizei (levels layout)
              (of_nat (floorlog 2 (unat (std_max_unsigned (width layout) (height layout))))))"
    using assms by (simp only: mip_levels_Some simp_thms)
  then show ?thesis
    by (simp only: Texture2DArray_ctor_body option.map)
qed

lemma Texture2DArray_body_object:
  "fst (Texture2DArray_body reply id' layout data generateMipmap lv) =
     \<lparr>m_id = id', m_name = tex_name_reply reply, m_texture_handle = tex_handle_reply reply,
      m_internal_format = internal_format layout, m_format = format layout,
      m_type = type_T layout, m_levels = levels layout, m_width = width layout,
      m_height = height layout, m_layers = depth layout\<rparr>"
  by (simp add: Texture2DArray_body_def Let_def)

lemma Texture2DArray_body_layout:
  "internal_format (getTextureLayout (fst (Texture2DArray_body reply id' L data gm lv))) =
     internal_format L"
  "width (getTextureLayout (fst (Texture2DArray_body reply id' L data gm lv))) = width L"
  "height (getTextureLayout (fst (Texture2DArray_body reply id' L data gm lv))) = height L"
  "depth (getTextureLayout (fst (Texture2DArray_body reply id' L data gm lv))) = depth L"
  "format (getTextureLayout (fst (Texture2DArray_body reply id' L data gm lv))) = format L"
  "type_T (getTextureLayout (fst (Texture2DArray_body reply id' L data gm lv))) = type_T L"
  "levels (getTextureLayout (fst (Texture2DArray_body reply id' L data gm lv))) = levels L"
  by (simp_all add: Texture2DArray_body_object getTextureLayout_def TextureLayout7_def)

lemma Texture2DArray_body_calls:
  "fst (snd (Texture2DArray_body reply id' L data gm lv)) =
     [glGenTextures 1, glBindTexture GL_TEXTURE_2D_ARRAY (tex_name_reply reply)] @
     map (\<lambda>p. glTexParameteri GL_TEXTURE_2D_ARRAY (fst p) (snd p)) (int_parameters L) @
     map (\<lambda>p. glTexParameterf GL_TEXTURE_2D_ARRAY (fst p) (snd p)) (float_parameters L) @
     [glTexStorage3D GL_TEXTURE_2D_ARRAY lv (internal_format L) (width L) (height L)
        (depth L)] @
     (if data \<noteq> 0
      then [glTexSubImage3D GL_TEXTURE_2D_ARRAY 0 0 0 0 (width L) (height L) (depth L)
              (format L) (type_T L) data]
      else []) @
     (if gm then [glGenerateMipmap GL_TEXTURE_2D_ARRAY] else []) @
     [glGetTextureHandleARB (tex_name_reply reply), glBindTexture GL_TEXTURE_2D_ARRAY 0,
      glGetError]"
  by (simp add: Texture2DArray_body_def Let_def)

lemma Texture2DArray_body_output:
  "snd (snd (Texture2DArray_body reply id' L data gm lv)) =
     (if tex_error_reply reply \<noteq> GL_NO_ERROR
      then ''GL error during array texture (id: '' @ id' @ '') creation: '' @
           to_string (unat (tex_error_reply reply)) @ endl
      else [])"
  by (simp add: Texture2DArray_body_def Let_def)

lemma example_mip_levels: "mip_levels 10 4 4 = Some 3"
proof -
  have "floorlog 2 4 = 3"
    by (simp add: compute_floorlog)
  then show ?thesis
    by (simp add: mip_levels_def std_max_unsigned_def std_min_GLsizei_def Let_def word_sless_alt)
qed

lemma floorlog_2_eq:
  assumes "0 < n"
  shows "int (floorlog 2 n) = 1 + \<lfloor>log 2 (real n)\<rfloor>"
proof -
  have "1 \<le> real n"
    using assms by simp
  then have "0 \<le> log 2 (real n)"
    by simp
  then have "0 \<le> \<lfloor>log 2 (real n)\<rfloor>"
    by simp
  then show ?thesis
    using assms by (simp add: floorlog_def)
qed

lemma glGetError_notin_expected_calls: "glGetError \<notin> set (expected_calls h vd ibn)"
  by (auto simp add: expected_calls_def expected_layout_calls_def expected_attribute_calls_def
      expected_format_call_def glGetError_def glCreateVertexArrays_def
      glVertexArrayVertexBuffer_def glEnableVertexArrayAttrib_def glVertexArrayAttribFormat_def
      glVertexArrayAttribIFormat_def glVertexArrayAttribLFormat_def
      glVertexArrayAttribBinding_def glVertexArrayElementBuffer_def)

lemma glGetError_neq:
  "glGetError \<noteq> glGenTextures a"
  "glGetError \<noteq> glBindTexture b c"
  "glGetError \<noteq> glTexParameteri d e f"
  "glGetError \<noteq> glTexParameterf d e g"
  "glGetError \<noteq> glTexStorage3D h i j k l m"
  "glGetError \<noteq> glTexSubImage3D n p q r s t u v w x y"
  "glGetError \<noteq> glGenerateMipmap z"
  "glGetError \<noteq> glGetTextureHandleARB a'"
  "glGetError \<noteq> glGenBuffers b'"
  "glGetError \<noteq> glBindBuffer c' d'"
  "glGetError \<noteq> glBufferData e' f' g' h'"
  by (simp_all add: glGetError_def glGenTextures_def glBindTexture_def glTexParameteri_def
      glTexParameterf_def glTexStorage3D_def glTexSubImage3D_def glGenerateMipmap_def
      glGetTextureHandleARB_def glGenBuffers_def glBindBuffer_def glBufferData_def)

lemma count_list_map_notin:
  assumes "\<And>x. f x \<noteq> y"
  shows "count_list (map f xs) y = 0"
  using assms by (induction xs) simp_all

lemma to_string_1281: "to_string 1281 = ''1281''"
  by code_simp

lemma example_texture_ctor:
  "Texture2DArray_ctor \<lparr>tex_name_reply = 9, tex_handle_reply = 77, tex_error_reply = err\<rparr>
      ''tex'' example_texture_layout 0 False =
     Some (\<lparr>m_id = ''tex'', m_name = 9, m_texture_handle = 77, m_internal_format = 0x8058,
            m_format = 0x1908, m_type = 0x1401, m_levels = 10, m_width = 4, m_height = 4,
            m_layers = 2\<rparr>,
           [glGenTextures 1, glBindTexture GL_TEXTURE_2D_ARRAY 9,
            glTexParameteri GL_TEXTURE_2D_ARRAY 0x2801 0x2601,
            glTexStorage3D GL_TEXTURE_2D_ARRAY 3 0x8058 4 4 2,
            glGetTextureHandleARB 9, glBindTexture GL_TEXTURE_2D_ARRAY 0, glGetError],
           if err \<noteq> GL_NO_ERROR
           then ''GL error during array texture (id: tex) creation: '' @ to_string (unat err) @ endl
           else [])"
proof -
  have lv: "mip_levels (levels example_texture_layout) (width example_texture_layout)
      (height example_texture_layout) = Some 3"
    using example_mip_levels by (simp add: example_texture_layout_def)
  show ?thesis
    unfolding Texture2DArray_ctor_Some [OF lv]
    by (simp add: example_texture_layout_def)
qed

text \<open>
  Claim C7. The descriptors handed to a constructor are kept as they are and returned by
  the getters. When construction of a vertex array object returns an object,
  \<^verbatim>\<open>getVertexLayouts\<close> on it gives the vector of layouts passed in; it does return an
  object when every attribute has an accepted shader input type and the driver reports no
  error. When a texture array is constructed from a layout, \<^verbatim>\<open>getTextureLayout\<close> agrees
  with that layout on internal format, width, height, depth, format, type and levels: the
  constructor returns such an object whenever its level computation is defined (the
  larger extent is not 0), and for every layout, whatever value the level computation
  leaves in \<^verbatim>\<open>levels\<close>, the object the constructor builds agrees with the layout on the
  seven fields.
\<close>

theorem getters_return_descriptors:
  "(fst (VertexArrayObject_ctor reply vd cnt ibn idt pt) = Inr vao \<longrightarrow>
      getVertexLayouts vao = vd) \<and>
   (Texture2DArray_ctor treply id' L data generateMipmap = Some (tex, calls, out) \<longrightarrow>
      internal_format (getTextureLayout tex) = internal_format L \<and>
      width (getTextureLayout tex) = width L \<and>
      height (getTextureLayout tex) = height L \<and>
      depth (getTextureLayout tex) = depth L \<and>
      format (getTextureLayout tex) = format L \<and>
      type_T (getTextureLayout tex) = type_T L \<and>
      levels (getTextureLayout tex) = levels L) \<and>
   (valid_descriptor vd \<and> va_error_reply reply = GL_NO_ERROR \<longrightarrow>
      (\<exists>vao'. fst (VertexArrayObject_ctor reply vd cnt ibn idt pt) = Inr vao' \<and>
              getVertexLayouts vao' = vd)) \<and>
   (std_max_unsigned (width L) (height L) \<noteq> 0 \<longrightarrow>
      (\<exists>tex' calls' out'.
         Texture2DArray_ctor treply id' L data generateMipmap = Some (tex', calls', out') \<and>
         internal_format (getTextureLayout tex') = internal_format L \<and>
         width (getTextureLayout tex') = width L \<and>
         height (getTextureLayout tex') = height L \<and>
         depth (getTextureLayout tex') = depth L \<and>
         format (getTextureLayout tex') = format L \<and>
         type_T (getTextureLayout tex') = type_T L \<and>
         levels (getTextureLayout tex') = levels L)) \<and>
   internal_format
     (getTextureLayout (fst (Texture2DArray_body treply id' L data generateMipmap lv))) =
     internal_format L \<and>
   width (getTextureLayout (fst (Texture2DArray_body treply id' L data generateMipmap lv))) =
     width L \<and>
   height (getTextureLayout (fst (Texture2DArray_body treply id' L data generateMipmap lv))) =
     height L \<and>
   depth (getTextureLayout (fst (Texture2DArray_body treply id' L data generateMipmap lv))) =
     depth L \<and>
   format (getTextureLayout (fst (Texture2DArray_body treply id' L data generateMipmap lv))) =
     format L \<and>
   type_T (getTextureLayout (fst (Texture2DArray_body treply id' L data generateMipmap lv))) =
     type_T L \<and>
   levels (getTextureLayout (fst (Texture2DArray_body treply id' L data generateMipmap lv))) =
     levels L"
proof (intro conjI impI)
  assume ok: "fst (VertexArrayObject_ctor reply vd cnt ibn idt pt) = Inr vao"
  show "getVertexLayouts vao = vd"
  proof (cases "valid_descriptor vd")
    case True
    from ok show ?thesis
      by (auto simp add: VertexArrayObject_ctor_valid [OF True] getVertexLayouts_def
          split: if_splits)
  next
    case False
    from ok VertexArrayObject_ctor_invalid [OF False, of reply cnt ibn idt pt]
    show ?thesis by simp
  qed
next
  assume ok: "Texture2DArray_ctor treply id' L data generateMipmap = Some (tex, calls, out)"
  then obtain lv where lv: "mip_levels (levels L) (width L) (height L) = Some lv"
    using Texture2DArray_ctor_None [of treply id' L data generateMipmap]
    by (cases "mip_levels (levels L) (width L) (height L)") simp_all
  from ok have tex: "tex = \<lparr>m_id = id', m_name = tex_name_reply treply,
            m_texture_handle = tex_handle_reply treply,
            m_internal_format = internal_format L, m_format = format L,
            m_type = type_T L, m_levels = levels L, m_width = width L,
            m_height = height L, m_layers = depth L\<rparr>"
    by (simp only: Texture2DArray_ctor_Some [OF lv] option.inject prod.inject)
  show "internal_format (getTextureLayout tex) = internal_format L"
    and "width (getTextureLayout tex) = width L"
    and "height (getTextureLayout tex) = height L"
    and "depth (getTextureLayout tex) = depth L"
    and "format (getTextureLayout tex) = format L"
    and "type_T (getTextureLayout tex) = type_T L"
    and "levels (getTextureLayout tex) = levels L"
    by (simp_all add: tex getTextureLayout_def TextureLayout7_def)
next
  assume "valid_descriptor vd \<and> va_error_reply reply = GL_NO_ERROR"
  then have valid: "valid_descriptor vd" and no_error: "va_error_reply reply = GL_NO_ERROR"
    by simp_all
  have "fst (VertexArrayObject_ctor reply vd cnt ibn idt pt) =
      Inr \<lparr>m_va_handle = va_handle_reply reply, m_vertex_descriptor = vd,
           m_primitive_type = pt, m_draw_items_count = cnt, m_index_type = idt,
           m_index_buffer_name = ibn\<rparr>"
    by (simp add: VertexArrayObject_ctor_valid [OF valid] no_error)
  moreover have "getVertexLayouts \<lparr>m_va_handle = va_handle_reply reply,
      m_vertex_descriptor = vd, m_primitive_type = pt, m_draw_items_count = cnt,
      m_index_type = idt, m_index_buffer_name = ibn\<rparr> = vd"
    by (simp add: getVertexLayouts_def)
  ultimately show "\<exists>vao'. fst (VertexArrayObject_ctor reply vd cnt ibn idt pt) = Inr vao' \<and>
      getVertexLayouts vao' = vd"
    by blast
next
  assume extent: "std_max_unsigned (width L) (height L) \<noteq> 0"
  let ?lv = "std_min_GLsizei (levels L)
      (of_nat (floorlog 2 (unat (std_max_unsigned (width L) (height L)))))"
  let ?r = "Texture2DArray_body treply id' L data generateMipmap ?lv"
  have "Texture2DArray_ctor treply id' L data generateMipmap =
      Some (fst ?r, fst (snd ?r), snd (snd ?r))"
    by (simp only: Texture2DArray_ctor_returns [OF extent] prod.collapse)
  then show "\<exists>tex' calls' out'.
         Texture2DArray_ctor treply id' L data generateMipmap = Some (tex', calls', out') \<and>
         internal_format (getTextureLayout tex') = internal_format L \<and>
         width (getTextureLayout tex') = width L \<and>
         height (getTextureLayout tex') = height L \<and>
         depth (getTextureLayout tex') = depth L \<and>
         format (getTextureLayout tex') = format L \<and>
         type_T (getTextureLayout tex') = type_T L \<and>
         levels (getTextureLayout tex') = levels L"
    using Texture2DArray_body_layout [of treply id' L data generateMipmap ?lv]
    by blast
next
  show "internal_format
     (getTextureLayout (fst (Texture2DArray_body treply id' L data generateMipmap lv))) =
     internal_format L"
    and "width (getTextureLayout (fst (Texture2DArray_body treply id' L data generateMipmap lv))) =
     width L"
    and "height (getTextureLayout (fst (Texture2DArray_body treply id' L data generateMipmap lv))) =
     height L"
    and "depth (getTextureLayout (fst (Texture2DArray_body treply id' L data generateMipmap lv))) =
     depth L"
    and "format (getTextureLayout (fst (Texture2DArray_body treply id' L data generateMipmap lv))) =
     format L"
    and "type_T (getTextureLayout (fst (Texture2DArray_body treply id' L data generateMipmap lv))) =
     type_T L"
    and "levels (getTextureLayout (fst (Texture2DArray_body treply id' L data generateMipmap lv))) =
     levels L"
    by (rule Texture2DArray_body_layout)+
qed

theorem getters_return_descriptors_witness:
  "fst (VertexArrayObject_ctor \<lparr>va_handle_reply = 7, va_error_reply = 0\<rparr> example_descriptor
          3 5 GL_UNSIGNED_INT GL_TRIANGLES) =
     Inr \<lparr>m_va_handle = 7, m_vertex_descriptor = example_descriptor,
          m_primitive_type = GL_TRIANGLES, m_draw_items_count = 3,
          m_index_type = GL_UNSIGNED_INT, m_index_buffer_name = 5\<rparr> \<and>
   getVertexLayouts \<lparr>m_va_handle = 7, m_vertex_descriptor = example_descriptor,
          m_primitive_type = GL_TRIANGLES, m_draw_items_count = 3,
          m_index_type = GL_UNSIGNED_INT, m_index_buffer_name = 5\<rparr> = example_descriptor \<and>
   levels (getTextureLayout
     \<lparr>m_id = ''tex'', m_name = 9, m_texture_handle = 77, m_internal_format = 0x8058,
      m_format = 0x1908, m_type = 0x1401, m_levels = 10, m_width = 4, m_height = 4,
      m_layers = 2\<rparr>) = levels example_texture_layout \<and>
   width (getTextureLayout
     \<lparr>m_id = ''tex'', m_name = 9, m_texture_handle = 77, m_internal_format = 0x8058,
      m_format = 0x1908, m_type = 0x1401, m_levels = 10, m_width = 4, m_height = 4,
      m_layers = 2\<rparr>) = 4 \<and>
   valid_descriptor example_descriptor \<and>
   va_error_reply \<lparr>va_handle_reply = 7, va_error_reply = 0\<rparr> = GL_NO_ERROR \<and>
   std_max_unsigned (width example_texture_layout) (height example_texture_layout) \<noteq> 0 \<and>
   map_option (\<lambda>r. getTextureLayout (fst r))
     (Texture2DArray_ctor \<lparr>tex_name_reply = 9, tex_handle_reply = 77, tex_error_reply = 0\<rparr>
        ''tex'' example_texture_layout 0 False) =
     Some (TextureLayout7 0x8058 4 4 2 0x1908 0x1401 10) \<and>
   levels (getTextureLayout (fst
     (Texture2DArray_body \<lparr>tex_name_reply = 9, tex_handle_reply = 77, tex_error_reply = 0\<rparr>
        ''tex'' (TextureLayout7 0 0 0 0 0 0 0) 0 False 1))) =
     levels (TextureLayout7 0 0 0 0 0 0 0)"
proof -
  have vao: "fst (VertexArrayObject_ctor \<lparr>va_handle_reply = 7, va_error_reply = 0\<rparr>
      example_descriptor 3 5 GL_UNSIGNED_INT GL_TRIANGLES) =
     Inr \<lparr>m_va_handle = 7, m_vertex_descriptor = example_descriptor,
          m_primitive_type = GL_TRIANGLES, m_draw_items_count = 3,
          m_index_type = GL_UNSIGNED_INT, m_index_buffer_name = 5\<rparr>"
    by (simp add: VertexArrayObject_ctor_valid [OF example_descriptor_valid] GL_NO_ERROR_def)
  have no_error: "va_error_reply \<lparr>va_handle_reply = 7, va_error_reply = 0\<rparr> = GL_NO_ERROR"
    by (simp add: GL_NO_ERROR_def)
  have extent: "std_max_unsigned (width example_texture_layout)
      (height example_texture_layout) \<noteq> 0"
    by (simp add: std_max_unsigned_def example_texture_layout_def)
  have returned: "map_option (\<lambda>r. getTextureLayout (fst r))
     (Texture2DArray_ctor \<lparr>tex_name_reply = 9, tex_handle_reply = 77, tex_error_reply = 0\<rparr>
        ''tex'' example_texture_layout 0 False) =
     Some (TextureLayout7 0x8058 4 4 2 0x1908 0x1401 10)"
    by (simp add: example_texture_ctor getTextureLayout_def)
  show ?thesis
    using vao no_error extent returned example_descriptor_valid
      getters_return_descriptors [of "\<lparr>va_handle_reply = 7, va_error_reply = 0\<rparr>"
        example_descriptor 3 5 GL_UNSIGNED_INT GL_TRIANGLES
        "\<lparr>m_va_handle = 7, m_vertex_descriptor = example_descriptor,
          m_primitive_type = GL_TRIANGLES, m_draw_items_count = 3,
          m_index_type = GL_UNSIGNED_INT, m_index_buffer_name = 5\<rparr>"
        "\<lparr>tex_name_reply = 9, tex_handle_reply = 77, tex_error_reply = 0\<rparr>" "''tex''"
        example_texture_layout 0 False
        "\<lparr>m_id = ''tex'', m_name = 9, m_texture_handle = 77, m_internal_format = 0x8058,
          m_format = 0x1908, m_type = 0x1401, m_levels = 10, m_width = 4, m_height = 4,
          m_layers = 2\<rparr>"
        "[glGenTextures 1, glBindTexture GL_TEXTURE_2D_ARRAY 9,
          glTexParameteri GL_TEXTURE_2D_ARRAY 0x2801 0x2601,
          glTexStorage3D GL_TEXTURE_2D_ARRAY 3 0x8058 4 4 2,
          glGetTextureHandleARB 9, glBindTexture GL_TEXTURE_2D_ARRAY 0, glGetError]"
        "[]" 3]
      getters_return_descriptors [of "\<lparr>va_handle_reply = 7, va_error_reply = 0\<rparr>"
        example_descriptor 3 5 GL_UNSIGNED_INT GL_TRIANGLES
        "\<lparr>m_va_handle = 7, m_vertex_descriptor = example_descriptor,
          m_primitive_type = GL_TRIANGLES, m_draw_items_count = 3,
          m_index_type = GL_UNSIGNED_INT, m_index_buffer_name = 5\<rparr>"
        "\<lparr>tex_name_reply = 9, tex_handle_reply = 77, tex_error_reply = 0\<rparr>" "''tex''"
        "TextureLayout7 0 0 0 0 0 0 0" 0 False _ _ _ 1]
    by (simp add: example_texture_ctor GL_NO_ERROR_def) (simp add: example_texture_layout_def)
qed

lemma glGetError_neq_va:
  "glGetError \<noteq> glCreateVertexArrays a"
  "glGetError \<noteq> glVertexArrayVertexBuffer b c d e f"
  "glGetError \<noteq> glEnableVertexArrayAttrib g h"
  "glGetError \<noteq> glVertexArrayAttribBinding i j k"
  "glGetError \<noteq> expected_format_call l m n"
  by (simp_all add: glGetError_def glCreateVertexArrays_def glVertexArrayVertexBuffer_def
      glEnableVertexArrayAttrib_def glVertexArrayAttribBinding_def expected_format_call_def
      glVertexArrayAttribFormat_def glVertexArrayAttribIFormat_def
      glVertexArrayAttribLFormat_def)

lemma attribute_loop_no_query: "glGetError \<notin> set (snd (attribute_loop h b as g))"
proof (induction as arbitrary: g)
  case Nil
  show ?case by simp
next
  case (Cons a as)
  show ?case
  proof (cases "valid_input_type (shader_input_type a)")
    case True
    obtain r calls where rest: "attribute_loop h b as (g + 1) = (r, calls)"
      by (cases "attribute_loop h b as (g + 1)")
    with Cons.IH [of "g + 1"] have "glGetError \<notin> set calls"
      by simp
    then show ?thesis
      by (simp only: attribute_loop_step [OF True] rest prod.case snd_conv)
        (simp add: glGetError_neq_va)
  next
    case False
    show ?thesis
      by (simp only: attribute_loop_throw [OF False] snd_conv) (simp add: glGetError_neq_va)
  qed
qed

lemma layout_loop_no_query: "glGetError \<notin> set (snd (layout_loop h ds j g))"
proof (induction ds arbitrary: j g)
  case Nil
  show ?case by simp
next
  case (Cons d ds)
  obtain r calls where al: "attribute_loop h (ucast j) (attributes d) g = (r, calls)"
    by (cases "attribute_loop h (ucast j) (attributes d) g")
  with attribute_loop_no_query [of h "ucast j" "attributes d" g]
  have calls: "glGetError \<notin> set calls"
    by simp
  show ?case
  proof (cases r)
    case (Inl e)
    with al calls show ?thesis
      by (simp add: Let_def glGetError_neq_va)
  next
    case (Inr g')
    obtain r' calls' where ll: "layout_loop h ds (j + 1) g' = (r', calls')"
      by (cases "layout_loop h ds (j + 1) g'")
    with Cons.IH [of "j + 1" g'] have "glGetError \<notin> set calls'"
      by simp
    with al Inr ll calls show ?thesis
      by (simp add: Let_def glGetError_neq_va)
  qed
qed

lemma VertexArrayObject_ctor_invalid_no_query:
  assumes "\<not> valid_descriptor vd"
  shows "count_list (snd (VertexArrayObject_ctor reply vd cnt ibn idt pt)) glGetError = 0"
proof -
  obtain r calls where ll: "layout_loop (va_handle_reply reply) vd 0 0 = (r, calls)"
    by (cases "layout_loop (va_handle_reply reply) vd 0 0")
  with layout_loop_invalid [OF assms, of "va_handle_reply reply" 0 0]
  have r: "r = Inl (MeshException invalid_input_type_msg)"
    by simp
  from ll layout_loop_no_query [of "va_handle_reply reply" vd 0 0]
  have "glGetError \<notin> set calls"
    by simp
  then show ?thesis
    by (simp add: VertexArrayObject_ctor_def createVertexArray_def Let_def ll r
        glGetError_neq_va [symmetric])
qed

lemma Texture2DArray_body_query:
  "count_list (fst (snd (Texture2DArray_body reply id' L data gm lv))) glGetError = 1"
  "last (fst (snd (Texture2DArray_body reply id' L data gm lv))) = glGetError"
  unfolding Texture2DArray_body_calls
  by (simp_all add: count_list_map_notin glGetError_neq glGetError_neq [symmetric])

text \<open>
  Claim C2, amended. For a descriptor whose attributes all have an accepted shader input
  type, the constructor of \<^verbatim>\<open>VertexArrayObject\<close> queries the error code exactly once, as
  its last native call, and throws the \<^verbatim>\<open>MeshException\<close> carrying the code exactly when
  the code is not \<^verbatim>\<open>GL_NO_ERROR\<close>. The constructor of \<^verbatim>\<open>Texture2DArray\<close> and
  \<^verbatim>\<open>ShaderStorageBufferObject::reload\<close> query the error code exactly once, as their last
  native call, write a code other than \<^verbatim>\<open>GL_NO_ERROR\<close> to the standard error stream and
  return normally in either case. No native call follows the query, so nothing is retried.
  For a descriptor with another shader input type the constructor of
  \<^verbatim>\<open>VertexArrayObject\<close> throws the exception of claim C3 without querying the error code.
  The constructor of \<^verbatim>\<open>Texture2DArray\<close> returns, with this one query and this output,
  whenever its level computation is defined (the larger extent is not 0); for every
  layout, whatever value the level computation leaves in \<^verbatim>\<open>levels\<close>, its calls end with
  the one query and its output is as described.
\<close>

theorem error_check_once:
  "(valid_descriptor vd \<longrightarrow>
      count_list (snd (VertexArrayObject_ctor reply vd cnt ibn idt pt)) glGetError = 1 \<and>
      last (snd (VertexArrayObject_ctor reply vd cnt ibn idt pt)) = glGetError \<and>
      (fst (VertexArrayObject_ctor reply vd cnt ibn idt pt) =
         Inl (MeshException
                (''Mesh::Mesh - OpenGL error '' @ to_string (unat (va_error_reply reply)))) \<longleftrightarrow>
       va_error_reply reply \<noteq> GL_NO_ERROR) \<and>
      (isl (fst (VertexArrayObject_ctor reply vd cnt ibn idt pt)) \<longleftrightarrow>
       va_error_reply reply \<noteq> GL_NO_ERROR)) \<and>
   (\<not> valid_descriptor vd \<longrightarrow>
      count_list (snd (VertexArrayObject_ctor reply vd cnt ibn idt pt)) glGetError = 0 \<and>
      fst (VertexArrayObject_ctor reply vd cnt ibn idt pt) =
        Inl (MeshException invalid_input_type_msg)) \<and>
   (Texture2DArray_ctor treply id' L data generateMipmap = Some (tex, calls, out) \<longrightarrow>
      count_list calls glGetError = 1 \<and> last calls = glGetError \<and>
      out = (if tex_error_reply treply \<noteq> GL_NO_ERROR
             then ''GL error during array texture (id: '' @ id' @ '') creation: '' @
                  to_string (unat (tex_error_reply treply)) @ endl
             else [])) \<and>
   count_list (fst (snd (reload this err size' index data'))) glGetError = 1 \<and>
   last (fst (snd (reload this err size' index data'))) = glGetError \<and>
   snd (snd (reload this err size' index data')) =
     (if err \<noteq> GL_NO_ERROR then ''Error - SSBO - reload: '' @ to_string (unat err) @ endl
      else []) \<and>
   (std_max_unsigned (width L) (height L) \<noteq> 0 \<longrightarrow>
      (\<exists>tex' calls' out'.
         Texture2DArray_ctor treply id' L data generateMipmap = Some (tex', calls', out') \<and>
         count_list calls' glGetError = 1 \<and> last calls' = glGetError \<and>
         out' = (if tex_error_reply treply \<noteq> GL_NO_ERROR
                 then ''GL error during array texture (id: '' @ id' @ '') creation: '' @
                      to_string (unat (tex_error_reply treply)) @ endl
                 else []))) \<and>
   count_list (fst (snd (Texture2DArray_body treply id' L data generateMipmap lv)))
     glGetError = 1 \<and>
   last (fst (snd (Texture2DArray_body treply id' L data generateMipmap lv))) = glGetError \<and>
   snd (snd (Texture2DArray_body treply id' L data generateMipmap lv)) =
     (if tex_error_reply treply \<noteq> GL_NO_ERROR
      then ''GL error during array texture (id: '' @ id' @ '') creation: '' @
           to_string (unat (tex_error_reply treply)) @ endl
      else [])"
proof (intro conjI impI)
  assume valid: "valid_descriptor vd"
  show "count_list (snd (VertexArrayObject_ctor reply vd cnt ibn idt pt)) glGetError = 1"
    by (simp add: VertexArrayObject_ctor_valid [OF valid] glGetError_notin_expected_calls)
  show "last (snd (VertexArrayObject_ctor reply vd cnt ibn idt pt)) = glGetError"
    by (simp add: VertexArrayObject_ctor_valid [OF valid])
  show "fst (VertexArrayObject_ctor reply vd cnt ibn idt pt) =
         Inl (MeshException
                (''Mesh::Mesh - OpenGL error '' @ to_string (unat (va_error_reply reply)))) \<longleftrightarrow>
       va_error_reply reply \<noteq> GL_NO_ERROR"
    by (simp add: VertexArrayObject_ctor_valid [OF valid])
  show "isl (fst (VertexArrayObject_ctor reply vd cnt ibn idt pt)) \<longleftrightarrow>
       va_error_reply reply \<noteq> GL_NO_ERROR"
    by (simp add: VertexArrayObject_ctor_valid [OF valid])
next
  assume invalid: "\<not> valid_descriptor vd"
  show "count_list (snd (VertexArrayObject_ctor reply vd cnt ibn idt pt)) glGetError = 0"
    by (rule VertexArrayObject_ctor_invalid_no_query [OF invalid])
  show "fst (VertexArrayObject_ctor reply vd cnt ibn idt pt) =
        Inl (MeshException invalid_input_type_msg)"
    by (rule VertexArrayObject_ctor_invalid [OF invalid])
next
  assume ok: "Texture2DArray_ctor treply id' L data generateMipmap = Some (tex, calls, out)"
  then obtain lv where lv: "mip_levels (levels L) (width L) (height L) = Some lv"
    using Texture2DArray_ctor_None [of treply id' L data generateMipmap]
    by (cases "mip_levels (levels L) (width L) (height L)") simp_all
  note eq = ok [unfolded Texture2DArray_ctor_Some [OF lv] option.inject prod.inject]
  from eq have calls: "calls =
           [glGenTextures 1, glBindTexture GL_TEXTURE_2D_ARRAY (tex_name_reply treply)] @
           map (\<lambda>p. glTexParameteri GL_TEXTURE_2D_ARRAY (fst p) (snd p)) (int_parameters L) @
           map (\<lambda>p. glTexParameterf GL_TEXTURE_2D_ARRAY (fst p) (snd p)) (float_parameters L) @
           [glTexStorage3D GL_TEXTURE_2D_ARRAY lv (internal_format L) (width L)
              (height L) (depth L)] @
           (if data \<noteq> 0
            then [glTexSubImage3D GL_TEXTURE_2D_ARRAY 0 0 0 0 (width L) (height L)
                    (depth L) (format L) (type_T L) data]
            else []) @
           (if generateMipmap then [glGenerateMipmap GL_TEXTURE_2D_ARRAY] else []) @
           [glGetTextureHandleARB (tex_name_reply treply), glBindTexture GL_TEXTURE_2D_ARRAY 0,
            glGetError]"
    by simp
  show "count_list calls glGetError = 1"
    unfolding calls
    by (simp add: count_list_map_notin glGetError_neq glGetError_neq [symmetric])
  show "last calls = glGetError"
    unfolding calls by simp
  from eq show "out = (if tex_error_reply treply \<noteq> GL_NO_ERROR
             then ''GL error during array texture (id: '' @ id' @ '') creation: '' @
                  to_string (unat (tex_error_reply treply)) @ endl
             else [])"
    by simp
next
  show "count_list (fst (snd (reload this err size' index data'))) glGetError = 1"
    by (simp add: reload_def Let_def glGetError_neq [symmetric])
  show "last (fst (snd (reload this err size' index data'))) = glGetError"
    by (simp add: reload_def Let_def)
  show "snd (snd (reload this err size' index data')) =
     (if err \<noteq> GL_NO_ERROR then ''Error - SSBO - reload: '' @ to_string (unat err) @ endl
      else [])"
    by (simp add: reload_def Let_def)
next
  assume extent: "std_max_unsigned (width L) (height L) \<noteq> 0"
  let ?lv = "std_min_GLsizei (levels L)
      (of_nat (floorlog 2 (unat (std_max_unsigned (width L) (height L)))))"
  let ?r = "Texture2DArray_body treply id' L data generateMipmap ?lv"
  have "Texture2DArray_ctor treply id' L data generateMipmap =
      Some (fst ?r, fst (snd ?r), snd (snd ?r))"
    by (simp only: Texture2DArray_ctor_returns [OF extent] prod.collapse)
  then show "\<exists>tex' calls' out'.
         Texture2DArray_ctor treply id' L data generateMipmap = Some (tex', calls', out') \<and>
         count_list calls' glGetError = 1 \<and> last calls' = glGetError \<and>
         out' = (if tex_error_reply treply \<noteq> GL_NO_ERROR
                 then ''GL error during array texture (id: '' @ id' @ '') creation: '' @
                      to_string (unat (tex_error_reply treply)) @ endl
                 else [])"
    using Texture2DArray_body_query [of treply id' L data generateMipmap ?lv]
      Texture2DArray_body_output [of treply id' L data generateMipmap ?lv]
    by blast
next
  show "count_list (fst (snd (Texture2DArray_body treply id' L data generateMipmap lv)))
     glGetError = 1"
    by (rule Texture2DArray_body_query)
  show "last (fst (snd (Texture2DArray_body treply id' L data generateMipmap lv))) = glGetError"
    by (rule Texture2DArray_body_query)
  show "snd (snd (Texture2DArray_body treply id' L data generateMipmap lv)) =
     (if tex_error_reply treply \<noteq> GL_NO_ERROR
      then ''GL error during array texture (id: '' @ id' @ '') creation: '' @
           to_string (unat (tex_error_reply treply)) @ endl
      else [])"
    by (rule Texture2DArray_body_output)
qed

theorem error_check_once_witness:
  "valid_descriptor example_descriptor \<and>
   count_list (snd (VertexArrayObject_ctor \<lparr>va_handle_reply = 7, va_error_reply = 1281\<rparr>
                      example_descriptor 3 5 GL_UNSIGNED_INT GL_TRIANGLES)) glGetError = 1 \<and>
   fst (VertexArrayObject_ctor \<lparr>va_handle_reply = 7, va_error_reply = 1281\<rparr>
          example_descriptor 3 5 GL_UNSIGNED_INT GL_TRIANGLES) =
     Inl (MeshException ''Mesh::Mesh - OpenGL error 1281'') \<and>
   \<not> isl (fst (VertexArrayObject_ctor \<lparr>va_handle_reply = 7, va_error_reply = 0\<rparr>
                 example_descriptor 3 5 GL_UNSIGNED_INT GL_TRIANGLES)) \<and>
   \<not> valid_descriptor byte_input_descriptor \<and>
   count_list (snd (VertexArrayObject_ctor \<lparr>va_handle_reply = 7, va_error_reply = 1281\<rparr>
                      byte_input_descriptor 3 5 GL_UNSIGNED_INT GL_TRIANGLES)) glGetError = 0 \<and>
   snd (snd (reload \<lparr>m_handle_ssbo = 2, m_size = 16, m_written_size = 0\<rparr> 1281 64 0 0)) =
     ''Error - SSBO - reload: 1281'' @ endl \<and>
   std_max_unsigned (width example_texture_layout) (height example_texture_layout) \<noteq> 0 \<and>
   map_option (\<lambda>r. count_list (fst (snd r)) glGetError)
     (Texture2DArray_ctor \<lparr>tex_name_reply = 9, tex_handle_reply = 77, tex_error_reply = 1281\<rparr>
        ''tex'' example_texture_layout 0 False) = Some 1 \<and>
   map_option (\<lambda>r. last (fst (snd r)))
     (Texture2DArray_ctor \<lparr>tex_name_reply = 9, tex_handle_reply = 77, tex_error_reply = 1281\<rparr>
        ''tex'' example_texture_layout 0 False) = Some glGetError \<and>
   map_option (\<lambda>r. snd (snd r))
     (Texture2DArray_ctor \<lparr>tex_name_reply = 9, tex_handle_reply = 77, tex_error_reply = 1281\<rparr>
        ''tex'' example_texture_layout 0 False) =
     Some (''GL error during array texture (id: tex) creation: 1281'' @ endl) \<and>
   map_option (\<lambda>r. snd (snd r))
     (Texture2DArray_ctor \<lparr>tex_name_reply = 9, tex_handle_reply = 77, tex_error_reply = 0\<rparr>
        ''tex'' example_texture_layout 0 False) = Some [] \<and>
   count_list (fst (snd
     (Texture2DArray_body \<lparr>tex_name_reply = 9, tex_handle_reply = 77, tex_error_reply = 1281\<rparr>
        ''tex'' (TextureLayout7 0 0 0 0 0 0 0) 0 False 1))) glGetError = 1"
proof -
  have code: "unat (1281 :: GLenum) = 1281"
    by simp
  have invalid: "\<not> valid_descriptor byte_input_descriptor"
    by (simp add: valid_descriptor_def valid_input_type_def byte_input_descriptor_def
        GL_type_defs)
  have extent: "std_max_unsigned (width example_texture_layout)
      (height example_texture_layout) \<noteq> 0"
    by (simp add: std_max_unsigned_def example_texture_layout_def)
  show ?thesis
    using example_descriptor_valid invalid extent
      error_check_once [of byte_input_descriptor
        "\<lparr>va_handle_reply = 7, va_error_reply = 1281\<rparr>" 3 5 GL_UNSIGNED_INT GL_TRIANGLES]
      error_check_once [of example_descriptor
        "\<lparr>va_handle_reply = 7, va_error_reply = 1281\<rparr>" 3 5 GL_UNSIGNED_INT GL_TRIANGLES
        "\<lparr>tex_name_reply = 9, tex_handle_reply = 77, tex_error_reply = 1281\<rparr>"
        "''tex''" example_texture_layout 0 False
        "\<lparr>m_id = ''tex'', m_name = 9, m_texture_handle = 77, m_internal_format = 0x8058,
          m_format = 0x1908, m_type = 0x1401, m_levels = 10, m_width = 4, m_height = 4,
          m_layers = 2\<rparr>"
        "[glGenTextures 1, glBindTexture GL_TEXTURE_2D_ARRAY 9,
          glTexParameteri GL_TEXTURE_2D_ARRAY 0x2801 0x2601,
          glTexStorage3D GL_TEXTURE_2D_ARRAY 3 0x8058 4 4 2,
          glGetTextureHandleARB 9, glBindTexture GL_TEXTURE_2D_ARRAY 0, glGetError]"
        "''GL error during array texture (id: tex) creation: '' @ to_string (unat (1281 :: GLenum))
           @ endl"
        "\<lparr>m_handle_ssbo = 2, m_size = 16, m_written_size = 0\<rparr>" 1281 64 0 0 3]
      error_check_once [of example_descriptor
        "\<lparr>va_handle_reply = 7, va_error_reply = 0\<rparr>" 3 5 GL_UNSIGNED_INT GL_TRIANGLES
        "\<lparr>tex_name_reply = 9, tex_handle_reply = 77, tex_error_reply = 1281\<rparr>"
        "''tex''" "TextureLayout7 0 0 0 0 0 0 0" 0 False _ _ _ _ _ _ _ _ 1]
    by (simp add: example_texture_ctor GL_NO_ERROR_def code to_string_1281
        glGetError_neq [symmetric])
qed

text \<open>
  Claim C2 as stated fails. With an attribute of shader input type \<^verbatim>\<open>GL_BYTE\<close> the
  constructor of \<^verbatim>\<open>VertexArrayObject\<close> throws although the driver reports
  \<^verbatim>\<open>GL_NO_ERROR\<close>, and the error code is never queried.
\<close>

theorem error_check_counterexample:
  "fst (VertexArrayObject_ctor \<lparr>va_handle_reply = 7, va_error_reply = GL_NO_ERROR\<rparr>
          byte_input_descriptor 3 5 GL_UNSIGNED_INT GL_TRIANGLES) =
     Inl (MeshException invalid_input_type_msg) \<and>
   count_list (snd (VertexArrayObject_ctor \<lparr>va_handle_reply = 7, va_error_reply = GL_NO_ERROR\<rparr>
                      byte_input_descriptor 3 5 GL_UNSIGNED_INT GL_TRIANGLES)) glGetError = 0"
  unfolding byte_input_ctor fst_conv snd_conv
  by (simp add: call_neq [symmetric])

text \<open>
  Claim C6, amended. For every layout whose larger extent (of width and height, as
  unsigned numbers) is not 0, the constructor of \<^verbatim>\<open>Texture2DArray\<close> forwards the
  parameters of the layout into the native calls as they are, except for the level count:
  the count given to \<^verbatim>\<open>glTexStorage3D\<close> is the smaller of the layout's \<^verbatim>\<open>levels\<close> and
  \<open>1 + \<lfloor>log\<^sub>2 extent\<rfloor>\<close>.
\<close>

theorem Texture2DArray_storage_levels:
  assumes "std_max_unsigned (width L) (height L) \<noteq> 0"
  shows "map_option (\<lambda>r. fst (snd r)) (Texture2DArray_ctor reply id' L data generateMipmap) =
     Some ([glGenTextures 1, glBindTexture GL_TEXTURE_2D_ARRAY (tex_name_reply reply)] @
           map (\<lambda>p. glTexParameteri GL_TEXTURE_2D_ARRAY (fst p) (snd p)) (int_parameters L) @
           map (\<lambda>p. glTexParameterf GL_TEXTURE_2D_ARRAY (fst p) (snd p)) (float_parameters L) @
           [glTexStorage3D GL_TEXTURE_2D_ARRAY
              (std_min_GLsizei (levels L)
                 (of_nat (floorlog 2 (unat (std_max_unsigned (width L) (height L))))))
              (internal_format L) (width L) (height L) (depth L)] @
           (if data \<noteq> 0
            then [glTexSubImage3D GL_TEXTURE_2D_ARRAY 0 0 0 0 (width L) (height L) (depth L)
                    (format L) (type_T L) data]
            else []) @
           (if generateMipmap then [glGenerateMipmap GL_TEXTURE_2D_ARRAY] else []) @
           [glGetTextureHandleARB (tex_name_reply reply), glBindTexture GL_TEXTURE_2D_ARRAY 0,
            glGetError]) \<and>
     int (floorlog 2 (unat (std_max_unsigned (width L) (height L)))) =
       1 + \<lfloor>log 2 (real (unat (std_max_unsigned (width L) (height L))))\<rfloor>"
proof
  have lv: "mip_levels (levels L) (width L) (height L) =
      Some (std_min_GLsizei (levels L)
              (of_nat (floorlog 2 (unat (std_max_unsigned (width L) (height L))))))"
    using assms by (simp only: mip_levels_Some simp_thms)
  show "map_option (\<lambda>r. fst (snd r)) (Texture2DArray_ctor reply id' L data generateMipmap) =
     Some ([glGenTextures 1, glBindTexture GL_TEXTURE_2D_ARRAY (tex_name_reply reply)] @
           map (\<lambda>p. glTexParameteri GL_TEXTURE_2D_ARRAY (fst p) (snd p)) (int_parameters L) @
           map (\<lambda>p. glTexParameterf GL_TEXTURE_2D_ARRAY (fst p) (snd p)) (float_parameters L) @
           [glTexStorage3D GL_TEXTURE_2D_ARRAY
              (std_min_GLsizei (levels L)
                 (of_nat (floorlog 2 (unat (std_max_unsigned (width L) (height L))))))
              (internal_format L) (width L) (height L) (depth L)] @
           (if data \<noteq> 0
            then [glTexSubImage3D GL_TEXTURE_2D_ARRAY 0 0 0 0 (width L) (height L) (depth L)
                    (format L) (type_T L) data]
            else []) @
           (if generateMipmap then [glGenerateMipmap GL_TEXTURE_2D_ARRAY] else []) @
           [glGetTextureHandleARB (tex_name_reply reply), glBindTexture GL_TEXTURE_2D_ARRAY 0,
            glGetError])"
    by (simp only: Texture2DArray_ctor_Some [OF lv] option.map fst_conv snd_conv)
  have "0 < unat (std_max_unsigned (width L) (height L))"
    using assms by (simp add: unat_gt_0)
  then show "int (floorlog 2 (unat (std_max_unsigned (width L) (height L)))) =
       1 + \<lfloor>log 2 (real (unat (std_max_unsigned (width L) (height L))))\<rfloor>"
    by (rule floorlog_2_eq)
qed

theorem Texture2DArray_storage_levels_witness:
  "std_max_unsigned (width example_texture_layout) (height example_texture_layout) \<noteq> 0 \<and>
   map_option (\<lambda>r. fst (snd r))
     (Texture2DArray_ctor \<lparr>tex_name_reply = 9, tex_handle_reply = 77, tex_error_reply = 0\<rparr>
        ''tex'' example_texture_layout 0 False) =
     Some [glGenTextures 1, glBindTexture GL_TEXTURE_2D_ARRAY 9,
           glTexParameteri GL_TEXTURE_2D_ARRAY 0x2801 0x2601,
           glTexStorage3D GL_TEXTURE_2D_ARRAY 3 0x8058 4 4 2,
           glGetTextureHandleARB 9, glBindTexture GL_TEXTURE_2D_ARRAY 0, glGetError]"
proof -
  have extent: "std_max_unsigned (width example_texture_layout)
      (height example_texture_layout) \<noteq> 0"
    by (simp add: std_max_unsigned_def example_texture_layout_def)
  show ?thesis
    using extent
      Texture2DArray_storage_levels [OF extent,
        of "\<lparr>tex_name_reply = 9, tex_handle_reply = 77, tex_error_reply = 0\<rparr>" "''tex''" 0 False]
    by (simp add: example_texture_ctor)
qed

text \<open>
  Claim C6 as stated fails: a 4 by 4 layout asking for ten levels is given three levels
  in the storage call.
\<close>

theorem Texture2DArray_levels_counterexample:
  "levels example_texture_layout = 10 \<and>
   map_option (\<lambda>r. fst (snd r))
     (Texture2DArray_ctor \<lparr>tex_name_reply = 9, tex_handle_reply = 77, tex_error_reply = 0\<rparr>
        ''tex'' example_texture_layout 0 False) =
     Some [glGenTextures 1, glBindTexture GL_TEXTURE_2D_ARRAY 9,
           glTexParameteri GL_TEXTURE_2D_ARRAY 0x2801 0x2601,
           glTexStorage3D GL_TEXTURE_2D_ARRAY 3 0x8058 4 4 2,
           glGetTextureHandleARB 9, glBindTexture GL_TEXTURE_2D_ARRAY 0, glGetError] \<and>
   glTexStorage3D GL_TEXTURE_2D_ARRAY 3 0x8058 4 4 2 \<noteq>
     glTexStorage3D GL_TEXTURE_2D_ARRAY (levels example_texture_layout) 0x8058 4 4 2"
  by (simp add: example_texture_ctor) (simp add: example_texture_layout_def glTexStorage3D_def)

section \<open>Construction of a shader program\<close>

lemma compileShaderFromString_throws:
  "fst (compileShaderFromString h r t src) \<noteq> None \<longleftrightarrow> src = [] \<or> compile_status r = GL_FALSE"
  by (simp add: compileShaderFromString_def Let_def)

lemma compileShaderFromString_exn:
  "fst (compileShaderFromString h r t src) = Some e \<Longrightarrow> \<exists>msg. e = GLSLProgramException msg"
  by (auto simp add: compileShaderFromString_def Let_def split: if_splits)

lemma compileShaderFromString_deletes:
  assumes "src \<noteq> []" "compile_status r = GL_FALSE"
  shows "last (snd (compileShaderFromString h r t src)) = glDeleteShader (shader_handle r)"
  using assms by (simp add: compileShaderFromString_def Let_def)

lemma link_throws: "fst (link h reply) \<noteq> None \<longleftrightarrow> link_status reply = GL_FALSE"
  by (simp add: link_def Let_def)

lemma link_exn: "fst (link h reply) = Some e \<Longrightarrow> \<exists>msg. e = GLSLProgramException msg"
  by (auto simp add: link_def Let_def split: if_splits)

lemma compile_loop_throws:
  "fst (compile_loop h rs i sl) \<noteq> None \<longleftrightarrow>
     (\<exists>k < length sl. snd (sl ! k) = [] \<or> compile_status (rs (i + k)) = GL_FALSE)"
proof (induction sl arbitrary: i)
  case Nil
  then show ?case by simp
next
  case (Cons s sl)
  have rhs: "(\<exists>k < length (s # sl).
                snd ((s # sl) ! k) = [] \<or> compile_status (rs (i + k)) = GL_FALSE) \<longleftrightarrow>
      (snd s = [] \<or> compile_status (rs i) = GL_FALSE) \<or>
      (\<exists>k < length sl. snd (sl ! k) = [] \<or> compile_status (rs (Suc i + k)) = GL_FALSE)"
    by (simp add: Ex_less_Suc2)
  show ?case
  proof (cases "fst (compileShaderFromString h (rs i) (fst s) (snd s))")
    case None
    then obtain calls where c: "compileShaderFromString h (rs i) (fst s) (snd s) = (None, calls)"
      by (cases "compileShaderFromString h (rs i) (fst s) (snd s)") simp
    have ok: "\<not> (snd s = [] \<or> compile_status (rs i) = GL_FALSE)"
      using None compileShaderFromString_throws [of h "rs i" "fst s" "snd s"] by simp
    have "fst (compile_loop h rs i (s # sl)) = fst (compile_loop h rs (Suc i) sl)"
      by (simp add: c split: prod.split)
    then show ?thesis
      unfolding rhs using ok Cons.IH [of "Suc i"] by simp
  next
    case (Some e)
    then obtain calls where c: "compileShaderFromString h (rs i) (fst s) (snd s) = (Some e, calls)"
      by (cases "compileShaderFromString h (rs i) (fst s) (snd s)") simp
    have bad: "snd s = [] \<or> compile_status (rs i) = GL_FALSE"
      using Some compileShaderFromString_throws [of h "rs i" "fst s" "snd s"] by simp
    have "fst (compile_loop h rs i (s # sl)) = Some e"
      by (simp add: c)
    then show ?thesis
      unfolding rhs using bad by simp
  qed
qed

lemma compile_loop_exn:
  "fst (compile_loop h rs i sl) = Some e \<Longrightarrow> \<exists>msg. e = GLSLProgramException msg"
proof (induction sl arbitrary: i)
  case Nil
  then show ?case by simp
next
  case (Cons s sl)
  show ?case
  proof (cases "compileShaderFromString h (rs i) (fst s) (snd s)")
    case (Pair r calls)
    show ?thesis
    proof (cases r)
      case None
      with Pair Cons.prems have "fst (compile_loop h rs (Suc i) sl) = Some e"
        by (simp split: prod.splits)
      then show ?thesis by (rule Cons.IH)
    next
      case (Some e')
      with Pair Cons.prems have "e' = e" by simp
      with Pair Some compileShaderFromString_exn [of h "rs i" "fst s" "snd s" e]
      show ?thesis by simp
    qed
  qed
qed


lemma GLSLProgram_ctor_cases:
  "GLSLProgram_ctor reply sl =
     (case fst (compile_loop (program_handle reply) (shader_replies reply) 0 sl) of
        Some e \<Rightarrow>
          (Inl e,
           glCreateProgram #
           snd (compile_loop (program_handle reply) (shader_replies reply) 0 sl) @
           [glDeleteProgram (program_handle reply)])
      | None \<Rightarrow>
          (case fst (link (program_handle reply) reply) of
             Some e \<Rightarrow>
               (Inl e,
                glCreateProgram #
                (snd (compile_loop (program_handle reply) (shader_replies reply) 0 sl) @
                 snd (link (program_handle reply) reply)) @
                [glDeleteProgram (program_handle reply)])
           | None \<Rightarrow>
               (Inr \<lparr>m_handle = program_handle reply, m_debug_label = []\<rparr>,
                glCreateProgram #
                snd (compile_loop (program_handle reply) (shader_replies reply) 0 sl) @
                snd (link (program_handle reply) reply))))"
proof -
  obtain r calls where cl:
    "compile_loop (program_handle reply) (shader_replies reply) 0 sl = (r, calls)"
    by (cases "compile_loop (program_handle reply) (shader_replies reply) 0 sl")
  obtain r' calls' where ln: "link (program_handle reply) reply = (r', calls')"
    by (cases "link (program_handle reply) reply")
  show ?thesis
    by (cases r; cases r') (simp_all add: GLSLProgram_ctor_def Let_def cl ln)
qed

lemma example_empty_source_ctor:
  "GLSLProgram_ctor example_program_reply [(Vertex, ''void main(){}''), (Fragment, [])] =
     (Inl (GLSLProgramException ''No shader source.''),
      [glCreateProgram, glCreateShader GL_VERTEX_SHADER, glShaderSource 20 1 ''void main(){}'',
       glCompileShader 20, glGetShaderiv 20 GL_COMPILE_STATUS, glAttachShader 11 20,
       glDeleteShader 20, glDeleteProgram 11])"
  by (simp add: GLSLProgram_ctor_def compileShaderFromString_def Let_def
      example_program_reply_def GL_FALSE_def)

lemma example_failing_shader:
  "compileShaderFromString 11 failing_shader_reply Fragment ''void main(){'' =
     (Some (GLSLProgramException ''error''),
      [glCreateShader GL_FRAGMENT_SHADER, glShaderSource 20 1 ''void main(){'',
       glCompileShader 20, glGetShaderiv 20 GL_COMPILE_STATUS,
       glGetShaderiv 20 GL_INFO_LOG_LENGTH, glGetShaderInfoLog 20 6, glDeleteShader 20])"
  by (simp add: compileShaderFromString_def Let_def failing_shader_reply_def word_sless_alt)

text \<open>
  Claim C4. Construction of a \<^verbatim>\<open>GLSLProgram\<close> raises a \<^verbatim>\<open>GLSLProgramException\<close> exactly
  when some shader source is empty, some shader fails to compile or the program fails to
  link. Whenever an exception leaves the constructor it is of that class and the last
  native call before it is the deletion of the created program; a shader whose
  compilation failed is deleted as the last native call before its exception is thrown.
\<close>

theorem GLSLProgram_ctor_exception:
  "((\<exists>msg. fst (GLSLProgram_ctor reply sl) = Inl (GLSLProgramException msg)) \<longleftrightarrow>
      (\<exists>i < length sl. snd (sl ! i) = []) \<or>
      (\<exists>i < length sl. compile_status (shader_replies reply i) = GL_FALSE) \<or>
      link_status reply = GL_FALSE) \<and>
   (isl (fst (GLSLProgram_ctor reply sl)) \<longrightarrow>
      (\<exists>msg. fst (GLSLProgram_ctor reply sl) = Inl (GLSLProgramException msg)) \<and>
      last (snd (GLSLProgram_ctor reply sl)) = glDeleteProgram (program_handle reply)) \<and>
   (source \<noteq> [] \<and> compile_status sreply = GL_FALSE \<longrightarrow>
      (\<exists>msg. fst (compileShaderFromString h sreply t source) =
               Some (GLSLProgramException msg)) \<and>
      last (snd (compileShaderFromString h sreply t source)) =
        glDeleteShader (shader_handle sreply))"
proof -
  let ?cl = "compile_loop (program_handle reply) (shader_replies reply) 0 sl"
  let ?ln = "link (program_handle reply) reply"
  let ?bad = "\<exists>k < length sl. snd (sl ! k) = [] \<or> compile_status (shader_replies reply k) = GL_FALSE"
  have bad_iff: "(\<exists>i < length sl. snd (sl ! i) = []) \<or>
      (\<exists>i < length sl. compile_status (shader_replies reply i) = GL_FALSE) \<longleftrightarrow> ?bad"
    by blast
  have cl: "fst ?cl \<noteq> None \<longleftrightarrow> ?bad"
    using compile_loop_throws [of "program_handle reply" "shader_replies reply" 0 sl] by simp
  have ln: "fst ?ln \<noteq> None \<longleftrightarrow> link_status reply = GL_FALSE"
    by (rule link_throws)
  have throws: "isl (fst (GLSLProgram_ctor reply sl)) \<longleftrightarrow> fst ?cl \<noteq> None \<or> fst ?ln \<noteq> None"
    by (simp add: GLSLProgram_ctor_cases split: option.split)
  have exn_class: "\<exists>msg. fst (GLSLProgram_ctor reply sl) = Inl (GLSLProgramException msg)"
    if "isl (fst (GLSLProgram_ctor reply sl))"
  proof (cases "fst ?cl")
    case (Some e)
    with compile_loop_exn [OF Some] show ?thesis
      by (auto simp add: GLSLProgram_ctor_cases)
  next
    case None
    with that throws obtain e where e: "fst ?ln = Some e"
      by auto
    with None link_exn [OF e] show ?thesis
      by (auto simp add: GLSLProgram_ctor_cases)
  qed
  have deleted: "last (snd (GLSLProgram_ctor reply sl)) = glDeleteProgram (program_handle reply)"
    if "isl (fst (GLSLProgram_ctor reply sl))"
    using that by (auto simp add: GLSLProgram_ctor_cases split: option.splits)
  have iff: "(\<exists>msg. fst (GLSLProgram_ctor reply sl) = Inl (GLSLProgramException msg)) \<longleftrightarrow>
      isl (fst (GLSLProgram_ctor reply sl))"
    using exn_class by auto
  have shader: "(\<exists>msg. fst (compileShaderFromString h sreply t source) =
               Some (GLSLProgramException msg)) \<and>
      last (snd (compileShaderFromString h sreply t source)) =
        glDeleteShader (shader_handle sreply)"
    if "source \<noteq> [] \<and> compile_status sreply = GL_FALSE"
    using that by (simp add: compileShaderFromString_def Let_def)
  show ?thesis
    unfolding iff throws cl ln bad_iff
    using exn_class deleted shader throws cl ln by blast
qed

theorem GLSLProgram_ctor_exception_witness:
  "fst (GLSLProgram_ctor example_program_reply [(Vertex, ''void main(){}''), (Fragment, [])]) =
     Inl (GLSLProgramException ''No shader source.'') \<and>
   last (snd (GLSLProgram_ctor example_program_reply
                [(Vertex, ''void main(){}''), (Fragment, [])])) = glDeleteProgram 11 \<and>
   \<not> isl (fst (GLSLProgram_ctor example_program_reply [(Vertex, ''void main(){}'')])) \<and>
   fst (compileShaderFromString 11 failing_shader_reply Fragment ''void main(){'') =
     Some (GLSLProgramException ''error'') \<and>
   last (snd (compileShaderFromString 11 failing_shader_reply Fragment ''void main(){'')) =
     glDeleteShader 20"
proof -
  have failing: "''void main(){'' \<noteq> [] \<and> compile_status failing_shader_reply = GL_FALSE"
    by (simp add: failing_shader_reply_def)
  have good: "\<not> ((\<exists>i < length [(Vertex, ''void main(){}'')].
                   snd ([(Vertex, ''void main(){}'')] ! i) = []) \<or>
      (\<exists>i < length [(Vertex, ''void main(){}'')].
         compile_status (shader_replies example_program_reply i) = GL_FALSE) \<or>
      link_status example_program_reply = GL_FALSE)"
    by (simp add: example_program_reply_def GL_FALSE_def)
  show ?thesis
    using failing good
      GLSLProgram_ctor_exception [of example_program_reply
        "[(Vertex, ''void main(){}''), (Fragment, [])]" "''void main(){''" failing_shader_reply
        11 Fragment]
      GLSLProgram_ctor_exception [of example_program_reply "[(Vertex, ''void main(){}'')]"
        "''void main(){''" failing_shader_reply 11 Fragment]
    by (simp add: example_empty_source_ctor example_failing_shader) blast
qed

section \<open>Forwarding methods\<close>

lemmas setUniform_defs =
  setUniform_1f_def setUniform_2f_def setUniform_3f_def setUniform_4f_def
  setUniform_1i_def setUniform_2i_def setUniform_3i_def setUniform_4i_def
  setUniform_1ui_def setUniform_2ui_def setUniform_3ui_def setUniform_4ui_def
  setUniform_vec2_def setUniform_vec3_def setUniform_vec4_def
  setUniform_ivec2_def setUniform_ivec3_def setUniform_ivec4_def
  setUniform_mat2_def setUniform_mat3_def setUniform_mat4_def

text \<open>
  Claim C5, amended. \<^verbatim>\<open>use\<close>, \<^verbatim>\<open>bind\<close>, \<^verbatim>\<open>bindAttribLocation\<close>,
  \<^verbatim>\<open>bindFragDataLocation\<close>, \<^verbatim>\<open>bindTexture\<close> and the two \<^verbatim>\<open>bind\<close> methods of the buffer
  object each issue exactly one native call, with the stored handle and the caller's
  arguments as they are. Each overload of \<^verbatim>\<open>setUniform\<close> issues exactly two: the location
  query for the given name on the stored handle, then the matching upload call at the
  location the query returned, with the caller's values as they are; the vector and
  matrix overloads pass the count 1, the matrix overloads the transpose flag
  \<^verbatim>\<open>GL_FALSE\<close>.
\<close>

theorem forwarding_calls:
  "use this = [glUseProgram (m_handle this)] \<and>
   VertexArrayObject_bind vao = [glBindVertexArray (m_va_handle vao)] \<and>
   bindAttribLocation this location name = [glBindAttribLocation (m_handle this) location name] \<and>
   bindFragDataLocation this location name =
     [glBindFragDataLocation (m_handle this) location name] \<and>
   bindTexture tex = [glBindTexture GL_TEXTURE_2D_ARRAY (m_name tex)] \<and>
   ShaderStorageBufferObject_bind ssbo =
     [glBindBuffer GL_SHADER_STORAGE_BUFFER (m_handle_ssbo ssbo)] \<and>
   ShaderStorageBufferObject_bind_index ssbo index =
     [glBindBufferBase GL_SHADER_STORAGE_BUFFER index (m_handle_ssbo ssbo)] \<and>
   setUniform_1f this loc name f0 =
     [glGetUniformLocation (m_handle this) name, glUniform1f loc f0] \<and>
   setUniform_2f this loc name f0 f1 =
     [glGetUniformLocation (m_handle this) name, glUniform2f loc f0 f1] \<and>
   setUniform_3f this loc name f0 f1 f2 =
     [glGetUniformLocation (m_handle this) name, glUniform3f loc f0 f1 f2] \<and>
   setUniform_4f this loc name f0 f1 f2 f3 =
     [glGetUniformLocation (m_handle this) name, glUniform4f loc f0 f1 f2 f3] \<and>
   setUniform_1i this loc name i0 =
     [glGetUniformLocation (m_handle this) name, glUniform1i loc i0] \<and>
   setUniform_2i this loc name i0 i1 =
     [glGetUniformLocation (m_handle this) name, glUniform2i loc i0 i1] \<and>
   setUniform_3i this loc name i0 i1 i2 =
     [glGetUniformLocation (m_handle this) name, glUniform3i loc i0 i1 i2] \<and>
   setUniform_4i this loc name i0 i1 i2 i3 =
     [glGetUniformLocation (m_handle this) name, glUniform4i loc i0 i1 i2 i3] \<and>
   setUniform_1ui this loc name u0 =
     [glGetUniformLocation (m_handle this) name, glUniform1ui loc u0] \<and>
   setUniform_2ui this loc name u0 u1 =
     [glGetUniformLocation (m_handle this) name, glUniform2ui loc u0 u1] \<and>
   setUniform_3ui this loc name u0 u1 u2 =
     [glGetUniformLocation (m_handle this) name, glUniform3ui loc u0 u1 u2] \<and>
   setUniform_4ui this loc name u0 u1 u2 u3 =
     [glGetUniformLocation (m_handle this) name, glUniform4ui loc u0 u1 u2 u3] \<and>
   setUniform_vec2 this loc name (f0, f1) =
     [glGetUniformLocation (m_handle this) name, glUniform2fv loc 1 [f0, f1]] \<and>
   setUniform_vec3 this loc name (f0, f1, f2) =
     [glGetUniformLocation (m_handle this) name, glUniform3fv loc 1 [f0, f1, f2]] \<and>
   setUniform_vec4 this loc name (f0, f1, f2, f3) =
     [glGetUniformLocation (m_handle this) name, glUniform4fv loc 1 [f0, f1, f2, f3]] \<and>
   setUniform_ivec2 this loc name (i0, i1) =
     [glGetUniformLocation (m_handle this) name, glUniform2iv loc 1 [i0, i1]] \<and>
   setUniform_ivec3 this loc name (i0, i1, i2) =
     [glGetUniformLocation (m_handle this) name, glUniform3iv loc 1 [i0, i1, i2]] \<and>
   setUniform_ivec4 this loc name (i0, i1, i2, i3) =
     [glGetUniformLocation (m_handle this) name, glUniform4iv loc 1 [i0, i1, i2, i3]] \<and>
   setUniform_mat2 this loc name ((a0, a1), (b0, b1)) =
     [glGetUniformLocation (m_handle this) name,
      glUniformMatrix2fv loc 1 0 [a0, a1, b0, b1]] \<and>
   setUniform_mat3 this loc name ((a0, a1, a2), (b0, b1, b2), (c0, c1, c2)) =
     [glGetUniformLocation (m_handle this) name,
      glUniformMatrix3fv loc 1 0 [a0, a1, a2, b0, b1, b2, c0, c1, c2]] \<and>
   setUniform_mat4 this loc name
       ((a0, a1, a2, a3), (b0, b1, b2, b3), (c0, c1, c2, c3), (d0, d1, d2, d3)) =
     [glGetUniformLocation (m_handle this) name,
      glUniformMatrix4fv loc 1 0
        [a0, a1, a2, a3, b0, b1, b2, b3, c0, c1, c2, c3, d0, d1, d2, d3]]"
  by (intro conjI)
    (simp_all add: use_def VertexArrayObject_bind_def bindAttribLocation_def
      bindFragDataLocation_def bindTexture_def ShaderStorageBufferObject_bind_def
      ShaderStorageBufferObject_bind_index_def setUniform_defs getUniformLocation_def
      value_ptr_mat2_def value_ptr_mat3_def value_ptr_mat4_def GL_FALSE_def)

text \<open>
  Claim C5 as stated, for each public method, fails: \<^verbatim>\<open>draw\<close> issues three native calls
  and picks the draw call by the stored index buffer name and item count, and an overload
  of \<^verbatim>\<open>setUniform\<close> issues two native calls.
\<close>

theorem forwarding_counterexample:
  "VertexArrayObject_draw
     \<lparr>m_va_handle = 7, m_vertex_descriptor = example_descriptor,
      m_primitive_type = GL_TRIANGLES, m_draw_items_count = 3,
      m_index_type = GL_UNSIGNED_INT, m_index_buffer_name = 0\<rparr> 1 =
     [glBindVertexArray 7, glDrawArraysInstanced GL_TRIANGLES 0 3 1, glBindVertexArray 0] \<and>
   VertexArrayObject_draw
     \<lparr>m_va_handle = 7, m_vertex_descriptor = example_descriptor,
      m_primitive_type = GL_TRIANGLES, m_draw_items_count = 3,
      m_index_type = GL_UNSIGNED_INT, m_index_buffer_name = 5\<rparr> 1 =
     [glBindVertexArray 7, glDrawElementsInstanced GL_TRIANGLES 3 GL_UNSIGNED_INT 0 1,
      glBindVertexArray 0] \<and>
   length (VertexArrayObject_draw
     \<lparr>m_va_handle = 7, m_vertex_descriptor = example_descriptor,
      m_primitive_type = GL_TRIANGLES, m_draw_items_count = 3,
      m_index_type = GL_UNSIGNED_INT, m_index_buffer_name = 0\<rparr> 1) \<noteq> 1 \<and>
   length (setUniform_1f \<lparr>m_handle = 11, m_debug_label = []\<rparr> 4 ''color'' 0x3F800000) \<noteq> 1"
  by (simp add: VertexArrayObject_draw_def setUniform_1f_def getUniformLocation_def)

end
